theory Spec2Isabelle
  imports Main
begin

section \<open>JavaScript values and string primitives used by the client\<close>

text \<open>
  The client (\<^verbatim>\<open>src/index.js\<close>) is a Node.js class. Its wire format is 7-bit ASCII
  (one character per byte), so a JavaScript string is modelled as a \<^typ>\<open>string\<close>.

  A JavaScript number is an IEEE 754 binary64 value. Every finite one is an integer or an
  odd integer over a power of two: \<open>Num n\<close> is the integer \<open>n\<close>, \<open>Frac m k\<close> is \<open>m / 2 ^ k\<close>
  (written with \<open>m\<close> odd and \<open>k > 0\<close>), \<open>Infinite True\<close> and \<open>Infinite False\<close> are
  \<^verbatim>\<open>Infinity\<close> and \<^verbatim>\<open>-Infinity\<close>. The two zeros are one value: the client never tells them
  apart.
\<close>

datatype jsnum = NaN | Num int | Frac int nat | Infinite bool

text \<open>\<^verbatim>\<open>x < y\<close>, and \<^verbatim>\<open>x >= y\<close>, which is false when either side is \<open>NaN\<close>.\<close>

fun js_lt :: "jsnum \<Rightarrow> jsnum \<Rightarrow> bool" where
  "js_lt (Num a) (Num b) = (a < b)"
| "js_lt (Num a) (Frac n j) = (a * 2 ^ j < n)"
| "js_lt (Frac m k) (Num b) = (m < b * 2 ^ k)"
| "js_lt (Frac m k) (Frac n j) = (m * 2 ^ j < n * 2 ^ k)"
| "js_lt (Infinite s) (Infinite t) = (\<not> s \<and> t)"
| "js_lt (Infinite s) (Num b) = (\<not> s)"
| "js_lt (Infinite s) (Frac n j) = (\<not> s)"
| "js_lt (Num a) (Infinite t) = t"
| "js_lt (Frac m k) (Infinite t) = t"
| "js_lt NaN y = False"
| "js_lt x NaN = False"

definition js_ge :: "jsnum \<Rightarrow> jsnum \<Rightarrow> bool" where
  "js_ge x y = (x \<noteq> NaN \<and> y \<noteq> NaN \<and> \<not> js_lt x y)"

text \<open>
  Rounding of the rational \<open>p / q\<close> (with \<open>q > 0\<close>) to the nearest binary64 value, ties to
  the even significand: \<open>floor_log2 a q\<close> is the binary exponent of \<open>a / q\<close>, the significand
  has 53 bits above the exponent \<open>-1022\<close> and fewer below (subnormal values), and a
  result of \<open>2 ^ 1024\<close> or more is infinite.
\<close>

fun bitlen :: "int \<Rightarrow> nat" where
  "bitlen n = (if n \<le> 0 then 0 else Suc (bitlen (n div 2)))"

declare bitlen.simps [simp del]

definition floor_log2 :: "int \<Rightarrow> int \<Rightarrow> int" where
  "floor_log2 a q =
     (let d = int (bitlen a) - int (bitlen q)
      in if (if 0 \<le> d then q * 2 ^ nat d \<le> a else q \<le> a * 2 ^ nat (- d)) then d else d - 1)"

definition round_half_even :: "int \<Rightarrow> int \<Rightarrow> int" where
  "round_half_even n d =
     (let q = n div d; r = n mod d
      in if 2 * r < d then q else if d < 2 * r then q + 1 else if even q then q else q + 1)"

fun reduce :: "int \<Rightarrow> nat \<Rightarrow> jsnum" where
  "reduce m 0 = Num m"
| "reduce m (Suc k) = (if even m then reduce (m div 2) k else Frac m (Suc k))"

definition scaled :: "int \<Rightarrow> int \<Rightarrow> jsnum" where
  "scaled m x = (if 0 \<le> x then Num (m * 2 ^ nat x) else reduce m (nat (- x)))"

definition to_double :: "int \<Rightarrow> int \<Rightarrow> jsnum" where
  "to_double p q =
     (if p = 0 then Num 0
      else
        let a = \<bar>p\<bar>;
            e = max (floor_log2 a q) (- 1022);
            n = (if e \<le> 52 then round_half_even (a * 2 ^ nat (52 - e)) q
                 else round_half_even a (q * 2 ^ nat (e - 52)))
        in if 1023 < e \<or> (e = 1023 \<and> 2 ^ 53 \<le> n) then Infinite (0 < p)
           else scaled (if 0 < p then n else - n) (e - 52))"

text \<open>\<^verbatim>\<open>x + 1\<close> (the \<^verbatim>\<open>++\<close> of the batch counter) and \<^verbatim>\<open>x - y\<close>: the exact result, rounded.\<close>

fun js_inc :: "jsnum \<Rightarrow> jsnum" where
  "js_inc (Num a) = to_double (a + 1) 1"
| "js_inc (Frac m k) = to_double (m + 2 ^ k) (2 ^ k)"
| "js_inc x = x"

fun js_sub :: "jsnum \<Rightarrow> jsnum \<Rightarrow> jsnum" where
  "js_sub (Num a) (Num b) = to_double (a - b) 1"
| "js_sub (Num a) (Frac n j) = to_double (a * 2 ^ j - n) (2 ^ j)"
| "js_sub (Frac m k) (Num b) = to_double (m - b * 2 ^ k) (2 ^ k)"
| "js_sub (Frac m k) (Frac n j) = to_double (m * 2 ^ j - n * 2 ^ k) (2 ^ (k + j))"
| "js_sub (Infinite s) (Infinite t) = (if s = t then NaN else Infinite s)"
| "js_sub (Infinite s) (Num b) = Infinite s"
| "js_sub (Infinite s) (Frac n j) = Infinite s"
| "js_sub (Num a) (Infinite t) = Infinite (\<not> t)"
| "js_sub (Frac m k) (Infinite t) = Infinite (\<not> t)"
| "js_sub NaN y = NaN"
| "js_sub x NaN = NaN"

text \<open>\<open>null\<close> converts to 0 where JavaScript needs a number.\<close>

fun to_number :: "jsnum option \<Rightarrow> jsnum" where
  "to_number None = Num 0"
| "to_number (Some n) = n"

text \<open>A number is falsy when it is 0 or \<open>NaN\<close>: \<^verbatim>\<open>Number(s) || 1\<close>.\<close>

fun or_one :: "jsnum \<Rightarrow> jsnum" where
  "or_one NaN = Num 1"
| "or_one (Num i) = (if i = 0 then Num 1 else Num i)"
| "or_one x = x"

text \<open>The integer part of a finite number (rounding towards zero).\<close>

fun truncated :: "jsnum \<Rightarrow> int" where
  "truncated (Num k) = k"
| "truncated (Frac m k) = (if 0 \<le> m then m div 2 ^ k else - ((- m) div 2 ^ k))"
| "truncated x = 0"

definition is_digit :: "char \<Rightarrow> bool" where
  "is_digit ch = (ch \<in> set ''0123456789'')"

definition digit_val :: "char \<Rightarrow> nat" where
  "digit_val ch = (case map_of (zip ''0123456789'' [0, 1, 2, 3, 4, 5, 6, 7, 8, 9]) ch of
     Some d \<Rightarrow> d | None \<Rightarrow> 0)"

definition digit_char :: "nat \<Rightarrow> char" where
  "digit_char d = ''0123456789'' ! d"

definition digits_value :: "string \<Rightarrow> nat" where
  "digits_value ds = foldl (\<lambda>a ch. 10 * a + digit_val ch) 0 ds"

text \<open>The ASCII white space that \<^verbatim>\<open>trim\<close>, \<^verbatim>\<open>parseInt\<close> and \<^verbatim>\<open>Number\<close> skip.\<close>

definition is_space :: "char \<Rightarrow> bool" where
  "is_space ch = (ch \<in> set [CHR 0x09, CHR 0x0A, CHR 0x0B, CHR 0x0C, CHR 0x0D, CHR 0x20])"

definition trim :: "string \<Rightarrow> string" where
  "trim s = rev (dropWhile is_space (rev (dropWhile is_space s)))"

text \<open>\<^verbatim>\<open>n.toString()\<close> for an integer \<open>n\<close>.\<close>

fun digits :: "nat \<Rightarrow> string" where
  "digits n = (if n < 10 then [digit_char n] else digits (n div 10) @ [digit_char (n mod 10)])"

declare digits.simps [simp del]

definition toString :: "int \<Rightarrow> string" where
  "toString i = (if i < 0 then CHR ''-'' # digits (nat (- i)) else digits (nat i))"

definition padStart :: "nat \<Rightarrow> char \<Rightarrow> string \<Rightarrow> string" where
  "padStart n ch s = replicate (n - length s) ch @ s"

definition padEnd :: "nat \<Rightarrow> char \<Rightarrow> string \<Rightarrow> string" where
  "padEnd n ch s = s @ replicate (n - length s) ch"

text \<open>
  \<^verbatim>\<open>s.slice(a, b)\<close> and \<^verbatim>\<open>s.slice(a)\<close>. An index is truncated to an integer, \<open>NaN\<close> counts
  as 0, a negative index counts from the end, and every index is clamped to the length.
\<close>

definition js_index :: "nat \<Rightarrow> jsnum \<Rightarrow> nat" where
  "js_index n i = (case i of Infinite s \<Rightarrow> (if s then n else 0)
     | _ \<Rightarrow> (let k = truncated i in if k < 0 then nat (max 0 (int n + k)) else min n (nat k)))"

definition slice_num :: "jsnum \<Rightarrow> jsnum \<Rightarrow> string \<Rightarrow> string" where
  "slice_num a b s = (let from = js_index (length s) a; to = js_index (length s) b
     in take (to - from) (drop from s))"

definition slice_from_num :: "jsnum \<Rightarrow> string \<Rightarrow> string" where
  "slice_from_num a s = drop (js_index (length s) a) s"

definition slice :: "nat \<Rightarrow> nat \<Rightarrow> string \<Rightarrow> string" where
  "slice a b s = take (b - a) (drop a s)"

definition slice_from :: "nat \<Rightarrow> string \<Rightarrow> string" where
  "slice_from a s = drop a s"

text \<open>\<^verbatim>\<open>p[i] === ch\<close> (an index past the end reads \<open>undefined\<close>), \<^verbatim>\<open>p[i]\<close> and
  \<^verbatim>\<open>p.charAt(i) || d\<close> (past the end \<^verbatim>\<open>charAt\<close> gives the empty string, which is falsy).\<close>

definition char_is :: "string \<Rightarrow> nat \<Rightarrow> char \<Rightarrow> bool" where
  "char_is p i ch = (i < length p \<and> p ! i = ch)"

definition index :: "string \<Rightarrow> nat \<Rightarrow> char option" where
  "index p i = (if i < length p then Some (p ! i) else None)"

definition charAt_or :: "string \<Rightarrow> nat \<Rightarrow> char \<Rightarrow> char" where
  "charAt_or p i d = (if i < length p then p ! i else d)"

text \<open>
  \<^verbatim>\<open>parseInt(s, 10)\<close>: leading white space, an optional sign, then the longest prefix of
  decimal digits, whose value is rounded to a number; \<open>NaN\<close> when there is no digit.
\<close>

definition parseInt :: "string \<Rightarrow> jsnum" where
  "parseInt s =
     (let t = dropWhile is_space s;
          neg = (t \<noteq> [] \<and> hd t = CHR ''-'');
          u = (if t \<noteq> [] \<and> (hd t = CHR ''-'' \<or> hd t = CHR ''+'') then tl t else t);
          ds = takeWhile is_digit u
      in if ds = [] then NaN
         else to_double (if neg then - int (digits_value ds) else int (digits_value ds)) 1)"

text \<open>
  \<^verbatim>\<open>Number(s)\<close> reads a string numeric literal. White space is trimmed and the empty
  string is 0. A literal \<^verbatim>\<open>0x\<close>, \<^verbatim>\<open>0o\<close> or \<^verbatim>\<open>0b\<close> (either case) with digits of its radix is
  an unsigned integer. Otherwise an optional sign is followed by \<^verbatim>\<open>Infinity\<close> or by a decimal
  literal: digits with an optional fraction (\<^verbatim>\<open>12\<close>, \<^verbatim>\<open>12.\<close>, \<^verbatim>\<open>12.5\<close>, \<^verbatim>\<open>.5\<close>) and an optional
  exponent (\<^verbatim>\<open>e\<close> or \<^verbatim>\<open>E\<close>, an optional sign, digits). The value is rounded to a number.
  Everything else is \<open>NaN\<close>.
\<close>

definition radix_digit :: "char \<Rightarrow> int option" where
  "radix_digit ch = map_of (zip ''0123456789abcdefABCDEF''
     [0, 1, 2, 3, 4, 5, 6, 7, 8, 9, 10, 11, 12, 13, 14, 15, 10, 11, 12, 13, 14, 15]) ch"

definition radix_value :: "int \<Rightarrow> string \<Rightarrow> int option" where
  "radix_value r ds =
     (if ds \<noteq> [] \<and> list_all (\<lambda>ch. case radix_digit ch of None \<Rightarrow> False | Some d \<Rightarrow> d < r) ds
      then Some (foldl (\<lambda>a ch. r * a + (case radix_digit ch of None \<Rightarrow> 0 | Some d \<Rightarrow> d)) 0 ds)
      else None)"

definition radix_literal :: "string \<Rightarrow> int option" where
  "radix_literal t =
     (if length t < 2 \<or> hd t \<noteq> CHR ''0'' then None
      else if t ! 1 \<in> set ''xX'' then radix_value 16 (drop 2 t)
      else if t ! 1 \<in> set ''oO'' then radix_value 8 (drop 2 t)
      else if t ! 1 \<in> set ''bB'' then radix_value 2 (drop 2 t)
      else None)"

definition exponent_part :: "string \<Rightarrow> int option" where
  "exponent_part r =
     (if r = [] then Some 0
      else if hd r \<in> set ''eE'' then
        (let x = tl r;
             ds = (if x \<noteq> [] \<and> hd x \<in> set ''+-'' then tl x else x)
         in if ds \<noteq> [] \<and> list_all is_digit ds
            then Some (if hd x = CHR ''-'' then - int (digits_value ds) else int (digits_value ds))
            else None)
      else None)"

text \<open>A decimal literal \<open>u\<close> as a pair \<open>(m, x)\<close> that stands for \<open>m * 10 ^ x\<close>.\<close>

definition decimal_literal :: "string \<Rightarrow> (int \<times> int) option" where
  "decimal_literal u =
     (let ds1 = takeWhile is_digit u;
          r1 = dropWhile is_digit u;
          dot = (r1 \<noteq> [] \<and> hd r1 = CHR ''.'');
          ds2 = (if dot then takeWhile is_digit (tl r1) else []);
          r2 = (if dot then dropWhile is_digit (tl r1) else r1)
      in if ds1 = [] \<and> ds2 = [] then None
         else (case exponent_part r2 of None \<Rightarrow> None
               | Some x \<Rightarrow> Some (int (digits_value (ds1 @ ds2)), x - int (length ds2))))"

definition Number :: "string \<Rightarrow> jsnum" where
  "Number s =
     (let t = trim s
      in if t = [] then Num 0
         else (case radix_literal t of Some n \<Rightarrow> to_double n 1
           | None \<Rightarrow>
               (let neg = (hd t = CHR ''-'');
                    u = (if hd t \<in> set ''+-'' then tl t else t)
                in if u = ''Infinity'' then Infinite (\<not> neg)
                   else (case decimal_literal u of None \<Rightarrow> NaN
                     | Some (m, x) \<Rightarrow>
                         (let p = (if neg then - m else m)
                          in if 0 \<le> x then to_double (p * 10 ^ nat x) 1
                             else to_double p (10 ^ nat (- x)))))))"

section \<open>Data model\<close>

subsection \<open>Errors\<close>

datatype interlock_code =
    NOT_CONNECTED | LINK_NOT_READY | TOOL_DISABLED | TOOL_RUNNING
  | CTRL_NOT_READY | ALARM_ACTIVE | VIN_REQUIRED | JOB_NOT_ACTIVE

text \<open>
  The exceptions the code can raise: \<^verbatim>\<open>InterlockError(code)\<close>, \<^verbatim>\<open>CommandError(mid)\<close>,
  a plain \<^verbatim>\<open>Error(message)\<close>, the \<^verbatim>\<open>TypeError\<close> of the runtime (a method call on the
  \<open>null\<close> socket, a value \<^verbatim>\<open>JSON.stringify\<close> cannot serialise), and whatever an event
  listener throws out of \<^verbatim>\<open>emit\<close>.
\<close>

datatype error =
    InterlockError interlock_code
  | CommandError int
  | PlainError string
  | TypeError
  | ListenerThrew

subsection \<open>Parsed messages\<close>

datatype field = FStr string | FNum jsnum | FCenti jsnum | FChar "char option"

text \<open>
  A tightening result as \<^verbatim>\<open>_parse0061\<close> and \<^verbatim>\<open>_parse0065\<close> build it. The torque is kept in
  the unit of the wire (\<^verbatim>\<open>Number(...)\<close> before the division by 100, which is a
  floating-point division: \<open>FCenti\<close> marks such a field). The fields that only some
  layouts have are in \<open>extra\<close>, in the order of the object literal.
\<close>

record result =
  tighteningId :: string
  spindle :: jsnum
  torqueCenti :: jsnum
  angle :: jsnum
  torqueStatus :: "char option"
  angleStatus :: "char option"
  ok :: bool
  extra :: "(string \<times> field) list"

record alarm =
  alarmCode :: string
  alarm_controllerReady :: bool
  alarm_toolReady :: bool
  alarm_timestamp :: string
  alarm_message :: string

text \<open>The object \<^verbatim>\<open>_parseMID\<close> returns, one constructor per case of its switch.\<close>

datatype parsed =
    P_CommStart int
  | P_CommandError jsnum jsnum string
  | P_CommandAccepted jsnum
  | P_ParamSet jsnum
  | P_BatchDecrement jsnum
  | P_ToolStatus bool bool bool bool
  | P_Vin string
  | P_VinRequired
  | P_Job jsnum
  | P_Batch jsnum jsnum jsnum
  | P_Result result
  | P_Alarm alarm
  | P_AlarmStatus bool "string list"
  | P_MultiSpindle string jsnum bool string
  | P_Raw string

subsection \<open>The state tree of \<^verbatim>\<open>createInitialState\<close>\<close>

datatype count_source = Src_default | Src_mid101 | Src_mid061 | Src_config | Src_manual

record connection_state =
  connected :: bool
  linkLayerReady :: bool
  lastMID :: "jsnum option"
  reconnecting :: bool
  reconnectAttempts :: nat

record protocol_state =
  revision :: int
  sub_tighteningResults :: bool
  sub_alarms :: bool
  sub_multiSpindleStatus :: bool

record controller_state =
  ready :: bool
  errorActive :: bool
  errorCode :: "jsnum option"
  alarms :: "alarm list"

record tool_state =
  enabled :: bool
  running :: bool
  spindleCount :: jsnum
  spindleCountSource :: count_source

record product_state =
  vin :: "string option"
  vinRequired :: bool
  vinValid :: bool
  vinLocked :: bool

record job_state =
  jobId :: "jsnum option"
  paramSetId :: "jsnum option"
  job_active :: bool
  job_locked :: bool

record batch_state =
  batchId :: "jsnum option"
  batch_size :: "jsnum option"
  batch_counter :: jsnum
  batch_active :: bool
  batch_complete :: bool
  batch_locked :: bool
  pendingReset :: bool

text \<open>
  \<open>pendingSpindles\<close> is a JavaScript \<^verbatim>\<open>Map\<close>: an association list in insertion order.
  \<open>watchdog\<close> is \<open>null\<close> (\<open>None\<close>) or a timer handle; \<open>Some True\<close> is a handle whose
  timer is still armed, \<open>Some False\<close> one whose timer has fired or was cancelled.
\<close>

record tightening_state =
  inProgress :: bool
  cycleStartTs :: "int option"
  pendingSpindles :: "(jsnum \<times> result) list"
  watchdog :: "bool option"

text \<open>
  An entry of \<open>pendingCommands\<close>: \<^verbatim>\<open>{mid, timestamp, timeout}\<close>; \<open>pc_timeout\<close> is whether
  the entry's timer is still armed.
\<close>

record pending_command =
  pc_mid :: int
  pc_timestamp :: int
  pc_timeout :: bool

subsection \<open>Values as \<^verbatim>\<open>JSON.stringify\<close> sees them\<close>

text \<open>\<open>VMap n\<close> is a \<^verbatim>\<open>Map\<close> with \<open>n\<close> entries, \<open>VTimeout armed\<close> a timer handle.\<close>

datatype jsval =
    VUndefined | VNull | VBool bool | VNum jsnum | VStr string
  | VArr "jsval list" | VObj "(string \<times> jsval) list" | VMap nat | VTimeout bool

subsection \<open>Events\<close>

datatype event =
    EvConnected | EvDisconnected
  | EvReconnecting nat int
  | EvError
  | EvLinkEstablished int
  | EvFrameErrorInvalidLength string
  | EvFrameErrorLengthOutOfRange jsnum
  | EvParseError jsnum error
  | EvCommandTimeout int nat
  | EvCommandAborted int nat
  | EvCommandError parsed
  | EvCommandAccepted jsnum
  | EvCommandSuccess jsnum nat "parsed option"
  | EvCommandFailed jsnum nat "parsed option"
  | EvBatchResetFailed parsed
  | EvBatchResetConfirmed
  | EvVinRequired
  | EvJobSelected jsnum
  | EvBatchStarted batch_state
  | EvAlarm alarm
  | EvAlarmStatus bool "string list"
  | EvSpindleCountUpdated jsnum count_source
  | EvMultiSpindleCycleComplete parsed
  | EvStateChanged jsval
  | EvTighteningCycleStarted int
  | EvVinLocked string
  | EvSpindleResult result
  | EvBatchProgress jsnum "jsnum option" jsnum
  | EvBatchCompleted batch_state
  | EvTighteningCycleCompleted "result list" bool int
  | EvTighteningIncomplete jsnum nat "result list"

subsection \<open>The client object and its environment\<close>

text \<open>
  The fields of \<^verbatim>\<open>OpenProtocolNutrunner\<close> (\<^verbatim>\<open>this.state.x\<close> is the field \<open>x\<close>), and what
  the code observes of its environment:
  \<^item> \<open>hasSocket\<close>: \<^verbatim>\<open>this.socket\<close> is not \<open>null\<close>; \<open>written\<close>: the arguments of the calls
    of \<^verbatim>\<open>socket.write\<close>, in order;
  \<^item> \<open>now\<close>: what \<^verbatim>\<open>Date.now()\<close> returns;
  \<^item> \<open>emitted\<close>: the events passed to \<^verbatim>\<open>emit\<close>, in order; \<open>listenerThrows\<close>: whether a
    listener throws, given the events emitted so far (the last one is the event being
    delivered). Listeners only observe: they do not call back into the client;
  \<^item> \<open>timeoutJSON\<close>: what \<^verbatim>\<open>JSON.parse(JSON.stringify(t))\<close> gives for a timer handle
    \<open>t\<close> of the runtime (\<open>None\<close>: it throws).
  \<open>heartbeatTimer\<close> is whether the interval is set; \<open>reconnectTimer\<close> is a handle like
  \<open>watchdog\<close>. The host and the port only name the peer and are left out.
\<close>

record client =
  autoReconnect :: bool
  validateFrames :: bool
  configuredSpindleCount :: "jsnum option"
  allowDuplicateCommands :: bool
  hasSocket :: bool
  buffer :: string
  connection :: connection_state
  protocol :: protocol_state
  controller :: controller_state
  tool :: tool_state
  product :: product_state
  job :: job_state
  batch :: batch_state
  tightening :: tightening_state
  pendingCommands :: "(nat \<times> pending_command) list"
  lastTrafficTs :: int
  heartbeatTimer :: bool
  reconnectTimer :: "bool option"
  reconnectDelay :: int
  commandSeq :: nat
  lastCommandId :: "nat option"
  now :: int
  written :: "string list"
  emitted :: "event list"
  listenerThrows :: "event list \<Rightarrow> bool"
  timeoutJSON :: "bool \<Rightarrow> jsval option"

text \<open>
  The constructor, with \<^verbatim>\<open>createInitialState\<close> inlined. Its arguments are the options
  \<^verbatim>\<open>autoReconnect\<close>, \<^verbatim>\<open>validateFrames\<close>, \<^verbatim>\<open>spindleCount\<close> and \<^verbatim>\<open>allowDuplicateCommands\<close>,
  then the environment: the listeners, the runtime's timer serialisation and the clock.
\<close>

definition createClient ::
  "bool \<Rightarrow> bool \<Rightarrow> jsnum option \<Rightarrow> bool \<Rightarrow> (event list \<Rightarrow> bool) \<Rightarrow> (bool \<Rightarrow> jsval option)
     \<Rightarrow> int \<Rightarrow> client" where
  "createClient auto validate count duplicates listeners tj t =
     \<lparr>autoReconnect = auto,
      validateFrames = validate,
      configuredSpindleCount = count,
      allowDuplicateCommands = duplicates,
      hasSocket = False,
      buffer = [],
      connection = \<lparr>connected = False, linkLayerReady = False, lastMID = None,
        reconnecting = False, reconnectAttempts = 0\<rparr>,
      protocol = \<lparr>revision = 1, sub_tighteningResults = False, sub_alarms = False,
        sub_multiSpindleStatus = False\<rparr>,
      controller = \<lparr>ready = False, errorActive = False, errorCode = None, alarms = []\<rparr>,
      tool = \<lparr>enabled = False, running = False, spindleCount = Num 1,
        spindleCountSource = Src_default\<rparr>,
      product = \<lparr>vin = None, vinRequired = False, vinValid = False, vinLocked = False\<rparr>,
      job = \<lparr>jobId = None, paramSetId = None, job_active = False, job_locked = False\<rparr>,
      batch = \<lparr>batchId = None, batch_size = None, batch_counter = Num 0,
        batch_active = False, batch_complete = False, batch_locked = False,
        pendingReset = False\<rparr>,
      tightening = \<lparr>inProgress = False, cycleStartTs = None, pendingSpindles = [],
        watchdog = None\<rparr>,
      pendingCommands = [],
      lastTrafficTs = t,
      heartbeatTimer = False,
      reconnectTimer = None,
      reconnectDelay = 1000,
      commandSeq = 0,
      lastCommandId = None,
      now = t,
      written = [],
      emitted = [],
      listenerThrows = listeners,
      timeoutJSON = tj\<rparr>"

text \<open>
  The default options, listeners that never throw, and the clock at 0. The timer handles
  are those of Node.js while they are armed: an armed timer is linked into the timer list
  of the runtime, a circular structure, and \<^verbatim>\<open>JSON.stringify\<close> throws a \<^verbatim>\<open>TypeError\<close> on it.
  A handle that has fired is not serialised in any state considered below.
\<close>

definition defaultClient :: client where
  "defaultClient = createClient True True None False (\<lambda>evs. False) (\<lambda>armed. None) 0"

section \<open>Event emission and control flow\<close>

text \<open>
  A method is a function from the client to an optional exception and the client as the
  method left it: state written before a \<^verbatim>\<open>throw\<close> stays written.
\<close>

type_synonym proc = "client \<Rightarrow> error option \<times> client"

definition modify :: "(client \<Rightarrow> client) \<Rightarrow> proc" where
  "modify f c = (None, f c)"

definition skip :: proc where
  "skip c = (None, c)"

definition throw :: "error \<Rightarrow> proc" where
  "throw e c = (Some e, c)"

text \<open>\<^verbatim>\<open>a; b\<close>: \<open>b\<close> runs only when \<open>a\<close> did not throw.\<close>

definition andThen :: "proc \<Rightarrow> proc \<Rightarrow> proc" where
  "andThen a b c = (case a c of (None, c') \<Rightarrow> b c' | (Some e, c') \<Rightarrow> (Some e, c'))"

fun seqs :: "proc list \<Rightarrow> proc" where
  "seqs [] = skip"
| "seqs (a # as) = andThen a (seqs as)"

text \<open>\<^verbatim>\<open>if (cond) { a }\<close>, the condition read in the current state.\<close>

definition whenever :: "(client \<Rightarrow> bool) \<Rightarrow> proc \<Rightarrow> proc" where
  "whenever cond a c = (if cond c then a c else (None, c))"

text \<open>
  \<^verbatim>\<open>try { a } finally { b }\<close>: \<open>b\<close> always runs; an exception of \<open>b\<close> replaces the
  outcome of \<open>a\<close>, otherwise the outcome of \<open>a\<close> stands.
\<close>

definition tryFinally :: "proc \<Rightarrow> proc \<Rightarrow> proc" where
  "tryFinally a b c = (case a c of (r, c') \<Rightarrow>
     (case b c' of (None, c'') \<Rightarrow> (r, c'') | (Some e, c'') \<Rightarrow> (Some e, c'')))"

text \<open>\<^verbatim>\<open>try { a } catch (err) { h(err) }\<close>.\<close>

definition tryCatch :: "proc \<Rightarrow> (error \<Rightarrow> proc) \<Rightarrow> proc" where
  "tryCatch a h c = (case a c of (None, c') \<Rightarrow> (None, c') | (Some e, c') \<Rightarrow> h e c')"

text \<open>A call whose return value is dropped.\<close>

definition void :: "(client \<Rightarrow> (error + 'a) \<times> client) \<Rightarrow> proc" where
  "void m c = (case m c of (Inl e, c') \<Rightarrow> (Some e, c') | (Inr v, c') \<Rightarrow> (None, c'))"

text \<open>
  \<^verbatim>\<open>this.emit(name, payload)\<close> calls the listeners synchronously; what a listener throws
  propagates to the caller of \<^verbatim>\<open>emit\<close>.
\<close>

definition emit :: "event \<Rightarrow> proc" where
  "emit ev c =
     (let c' = c\<lparr>emitted := emitted c @ [ev]\<rparr>
      in (if listenerThrows c (emitted c') then Some ListenerThrew else None, c'))"

section \<open>The state snapshot\<close>

text \<open>
  \<^verbatim>\<open>JSON.parse(JSON.stringify(v))\<close>: \<open>NaN\<close> and the infinities are written as \<open>null\<close>, a property whose value
  is \<open>undefined\<close> is left out, an \<open>undefined\<close> array element is written as \<open>null\<close>, a
  \<^verbatim>\<open>Map\<close> has no enumerable property of its own and is written as \<^verbatim>\<open>{}\<close>. \<open>None\<close>: the
  call throws.
\<close>

fun json_clone :: "(bool \<Rightarrow> jsval option) \<Rightarrow> jsval \<Rightarrow> jsval option"
  and json_elems :: "(bool \<Rightarrow> jsval option) \<Rightarrow> jsval list \<Rightarrow> jsval list option"
  and json_props :: "(bool \<Rightarrow> jsval option) \<Rightarrow> (string \<times> jsval) list \<Rightarrow> (string \<times> jsval) list option"
where
  "json_clone tj VUndefined = None"
| "json_clone tj VNull = Some VNull"
| "json_clone tj (VBool b) = Some (VBool b)"
| "json_clone tj (VNum NaN) = Some VNull"
| "json_clone tj (VNum (Infinite s)) = Some VNull"
| "json_clone tj (VNum (Num i)) = Some (VNum (Num i))"
| "json_clone tj (VNum (Frac m k)) = Some (VNum (Frac m k))"
| "json_clone tj (VStr s) = Some (VStr s)"
| "json_clone tj (VArr xs) = map_option VArr (json_elems tj xs)"
| "json_clone tj (VObj kvs) = map_option VObj (json_props tj kvs)"
| "json_clone tj (VMap n) = Some (VObj [])"
| "json_clone tj (VTimeout armed) = tj armed"
| "json_elems tj [] = Some []"
| "json_elems tj (x # xs) =
     (case (if x = VUndefined then Some VNull else json_clone tj x) of None \<Rightarrow> None
      | Some y \<Rightarrow> map_option ((#) y) (json_elems tj xs))"
| "json_props tj [] = Some []"
| "json_props tj ((k, v) # kvs) =
     (if v = VUndefined then json_props tj kvs
      else case json_clone tj v of None \<Rightarrow> None
        | Some w \<Rightarrow> map_option ((#) (k, w)) (json_props tj kvs))"

fun nullable :: "jsnum option \<Rightarrow> jsval" where
  "nullable None = VNull"
| "nullable (Some n) = VNum n"

definition alarm_value :: "alarm \<Rightarrow> jsval" where
  "alarm_value a = VObj
     [(''alarmCode'', VStr (alarmCode a)),
      (''controllerReady'', VBool (alarm_controllerReady a)),
      (''toolReady'', VBool (alarm_toolReady a)),
      (''timestamp'', VStr (alarm_timestamp a)),
      (''message'', VStr (alarm_message a))]"

definition source_name :: "count_source \<Rightarrow> string" where
  "source_name s = (case s of Src_default \<Rightarrow> ''default'' | Src_mid101 \<Rightarrow> ''mid101''
     | Src_mid061 \<Rightarrow> ''mid061'' | Src_config \<Rightarrow> ''config'' | Src_manual \<Rightarrow> ''manual'')"

text \<open>\<^verbatim>\<open>this.state\<close> as a tree of objects, in the property order of \<^verbatim>\<open>createInitialState\<close>.\<close>

definition state_value :: "client \<Rightarrow> jsval" where
  "state_value c = VObj
     [(''connection'', VObj
        [(''connected'', VBool (connected (connection c))),
         (''linkLayerReady'', VBool (linkLayerReady (connection c))),
         (''lastMID'', nullable (lastMID (connection c))),
         (''reconnecting'', VBool (reconnecting (connection c))),
         (''reconnectAttempts'', VNum (Num (int (reconnectAttempts (connection c)))))]),
      (''protocol'', VObj
        [(''revision'', VNum (Num (revision (protocol c)))),
         (''subscriptions'', VObj
           [(''tighteningResults'', VBool (sub_tighteningResults (protocol c))),
            (''alarms'', VBool (sub_alarms (protocol c))),
            (''multiSpindleStatus'', VBool (sub_multiSpindleStatus (protocol c)))])]),
      (''controller'', VObj
        [(''ready'', VBool (ready (controller c))),
         (''errorActive'', VBool (errorActive (controller c))),
         (''errorCode'', nullable (errorCode (controller c))),
         (''alarms'', VArr (map alarm_value (alarms (controller c))))]),
      (''tool'', VObj
        [(''enabled'', VBool (enabled (tool c))),
         (''running'', VBool (running (tool c))),
         (''spindleCount'', VNum (spindleCount (tool c))),
         (''spindleCountSource'', VStr (source_name (spindleCountSource (tool c))))]),
      (''product'', VObj
        [(''vin'', (case vin (product c) of None \<Rightarrow> VNull | Some v \<Rightarrow> VStr v)),
         (''vinRequired'', VBool (vinRequired (product c))),
         (''vinValid'', VBool (vinValid (product c))),
         (''vinLocked'', VBool (vinLocked (product c)))]),
      (''job'', VObj
        [(''jobId'', nullable (jobId (job c))),
         (''paramSetId'', nullable (paramSetId (job c))),
         (''active'', VBool (job_active (job c))),
         (''locked'', VBool (job_locked (job c)))]),
      (''batch'', VObj
        [(''batchId'', nullable (batchId (batch c))),
         (''size'', nullable (batch_size (batch c))),
         (''counter'', VNum (batch_counter (batch c))),
         (''active'', VBool (batch_active (batch c))),
         (''complete'', VBool (batch_complete (batch c))),
         (''locked'', VBool (batch_locked (batch c))),
         (''pendingReset'', VBool (pendingReset (batch c)))]),
      (''tightening'', VObj
        [(''inProgress'', VBool (inProgress (tightening c))),
         (''cycleStartTs'', (case cycleStartTs (tightening c) of None \<Rightarrow> VNull
            | Some t \<Rightarrow> VNum (Num t))),
         (''pendingSpindles'', VMap (length (pendingSpindles (tightening c)))),
         (''watchdog'', (case watchdog (tightening c) of None \<Rightarrow> VNull
            | Some armed \<Rightarrow> VTimeout armed))]),
      (''pendingCommands'', VMap (length (pendingCommands c)))]"

definition getState :: "client \<Rightarrow> jsval option" where
  "getState c = json_clone (timeoutJSON c) (state_value c)"

text \<open>\<^verbatim>\<open>this.emit('stateChanged', this.getState())\<close>: the argument is evaluated first.\<close>

definition emitStateChanged :: proc where
  "emitStateChanged c = (case getState c of None \<Rightarrow> (Some TypeError, c)
     | Some snapshot \<Rightarrow> emit (EvStateChanged snapshot) c)"

section \<open>Framing: \<^verbatim>\<open>sendMID\<close>\<close>

text \<open>\<^verbatim>\<open>Map.set\<close> keeps the place of a key that is present and appends a new one;
  \<^verbatim>\<open>Map.delete\<close> removes the key.\<close>

definition map_set :: "'k \<Rightarrow> 'v \<Rightarrow> ('k \<times> 'v) list \<Rightarrow> ('k \<times> 'v) list" where
  "map_set k v m =
     (if list_ex (\<lambda>e. fst e = k) m then map (\<lambda>e. if fst e = k then (k, v) else e) m
      else m @ [(k, v)])"

definition map_delete :: "'k \<Rightarrow> ('k \<times> 'v) list \<Rightarrow> ('k \<times> 'v) list" where
  "map_delete k m = filter (\<lambda>e. fst e \<noteq> k) m"

definition touchTraffic :: "client \<Rightarrow> client" where
  "touchTraffic c = c\<lparr>lastTrafficTs := now c\<rparr>"

text \<open>\<^verbatim>\<open>[...pendingCommands.values()].some(c => c.mid === mid)\<close>\<close>

definition hasPending :: "int \<Rightarrow> client \<Rightarrow> bool" where
  "hasPending mid c = list_ex (\<lambda>e. pc_mid (snd e) = mid) (pendingCommands c)"

text \<open>The text \<^verbatim>\<open>sendMID\<close> passes to \<^verbatim>\<open>socket.write\<close>.\<close>

definition frame_text :: "int \<Rightarrow> string \<Rightarrow> bool \<Rightarrow> string" where
  "frame_text mid payload expectAck =
     (let midStr = padStart 4 CHR ''0'' (toString mid);
          rev = ''001'';
          noAck = (if expectAck then ''0'' else ''1'');
          station = ''01'';
          spindle = ''01'';
          spare = ''    '';
          headerRest = rev @ noAck @ station @ spindle @ spare;
          body = midStr @ headerRest @ payload;
          len = padStart 4 CHR ''0'' (toString (int (length body + 4)))
      in len @ body)"

text \<open>
  \<^verbatim>\<open>sendMID(mid, payload, expectAck)\<close> returns \<^verbatim>\<open>this._lastCommandId\<close>. The pending entry is
  registered before the write, so it stays registered when the write throws because
  the socket is \<open>null\<close>.
\<close>

definition sendMID :: "int \<Rightarrow> string \<Rightarrow> bool \<Rightarrow> client \<Rightarrow> (error + nat option) \<times> client" where
  "sendMID mid payload expectAck c0 =
     (let c = touchTraffic c0 in
      if expectAck \<and> \<not> allowDuplicateCommands c \<and> hasPending mid c
      then (Inl (CommandError mid), c)
      else
        let c1 = (if expectAck
                  then (let cmdId = commandSeq c + 1 in
                        c\<lparr>commandSeq := cmdId,
                          pendingCommands := map_set cmdId
                            \<lparr>pc_mid = mid, pc_timestamp = now c, pc_timeout = True\<rparr>
                            (pendingCommands c),
                          lastCommandId := Some cmdId\<rparr>)
                  else c)
        in if hasSocket c1
           then (Inr (lastCommandId c1),
                 c1\<lparr>written := written c1 @ [frame_text mid payload expectAck]\<rparr>)
           else (Inl TypeError, c1))"

text \<open>The callback of an entry's timer, which runs only while the timer is armed.\<close>

definition commandTimeoutFires :: "nat \<Rightarrow> proc" where
  "commandTimeoutFires cmdId c =
     (case find (\<lambda>e. fst e = cmdId \<and> pc_timeout (snd e)) (pendingCommands c) of
        None \<Rightarrow> (None, c)
      | Some e \<Rightarrow>
          seqs [modify (\<lambda>c. c\<lparr>pendingCommands := map_delete cmdId (pendingCommands c)\<rparr>),
                emit (EvCommandTimeout (pc_mid (snd e)) cmdId)] c)"

section \<open>Interlocks and the public commands\<close>

definition check :: "string \<Rightarrow> client \<Rightarrow> error option" where
  "check cmd s =
     (if \<not> connected (connection s) then Some (InterlockError NOT_CONNECTED)
      else if \<not> linkLayerReady (connection s) then Some (InterlockError LINK_NOT_READY)
      else if cmd = ''startTightening'' then
        (if \<not> enabled (tool s) then Some (InterlockError TOOL_DISABLED)
         else if running (tool s) then Some (InterlockError TOOL_RUNNING)
         else if \<not> ready (controller s) then Some (InterlockError CTRL_NOT_READY)
         else if errorActive (controller s) then Some (InterlockError ALARM_ACTIVE)
         else if vinRequired (product s) \<and> \<not> vinValid (product s)
           then Some (InterlockError VIN_REQUIRED)
         else if \<not> job_active (job s) then Some (InterlockError JOB_NOT_ACTIVE)
         else None)
      else None)"

definition startTightening :: "client \<Rightarrow> (error + nat option) \<times> client" where
  "startTightening c = (case check ''startTightening'' c of Some e \<Rightarrow> (Inl e, c)
     | None \<Rightarrow> sendMID 43 [] True c)"

definition downloadVIN :: "string \<Rightarrow> client \<Rightarrow> (error + nat option) \<times> client" where
  "downloadVIN v c =
     (if length v > 25 then (Inl (PlainError ''VIN exceeds 25 characters''), c)
      else sendMID 50 (padEnd 25 CHR '' '' v) True c)"

definition selectJob :: "int \<Rightarrow> client \<Rightarrow> (error + nat option) \<times> client" where
  "selectJob job_id c = (let payload = padStart 4 CHR ''0'' (toString job_id)
     in sendMID 34 payload True c)"

definition selectParameterSet :: "int \<Rightarrow> client \<Rightarrow> (error + nat option) \<times> client" where
  "selectParameterSet param_set_id c = (let payload = padStart 3 CHR ''0'' (toString param_set_id)
     in sendMID 18 payload True c)"

definition enableTool :: "client \<Rightarrow> (error + nat option) \<times> client" where
  "enableTool c = sendMID 42 [] True c"

definition disableTool :: "client \<Rightarrow> (error + nat option) \<times> client" where
  "disableTool c = sendMID 45 [] True c"

definition resetBatch :: "client \<Rightarrow> (error + nat option) \<times> client" where
  "resetBatch c = sendMID 20 [] True (c\<lparr>batch := (batch c)\<lparr>pendingReset := True\<rparr>\<rparr>)"

definition decrementBatch :: "client \<Rightarrow> (error + nat option) \<times> client" where
  "decrementBatch c = sendMID 21 [] True c"

definition subscribeTighteningResults :: proc where
  "subscribeTighteningResults = seqs
     [void (sendMID 60 [] True),
      modify (\<lambda>c. c\<lparr>protocol := (protocol c)\<lparr>sub_tighteningResults := True\<rparr>\<rparr>)]"

definition unsubscribeTighteningResults :: proc where
  "unsubscribeTighteningResults = seqs
     [void (sendMID 63 [] False),
      modify (\<lambda>c. c\<lparr>protocol := (protocol c)\<lparr>sub_tighteningResults := False\<rparr>\<rparr>)]"

definition subscribeAlarms :: proc where
  "subscribeAlarms = seqs
     [void (sendMID 70 [] True),
      modify (\<lambda>c. c\<lparr>protocol := (protocol c)\<lparr>sub_alarms := True\<rparr>\<rparr>)]"

definition unsubscribeAlarms :: proc where
  "unsubscribeAlarms = seqs
     [void (sendMID 73 [] False),
      modify (\<lambda>c. c\<lparr>protocol := (protocol c)\<lparr>sub_alarms := False\<rparr>\<rparr>)]"

definition acknowledgeAlarm :: proc where
  "acknowledgeAlarm = void (sendMID 78 [] True)"

definition setSpindleCount :: "jsnum \<Rightarrow> proc" where
  "setSpindleCount count =
     (if js_lt count (Num 1) \<or> js_lt (Num 99) count
      then throw (PlainError ''Spindle count must be between 1 and 99'')
      else seqs
        [modify (\<lambda>c. c\<lparr>tool := (tool c)\<lparr>spindleCount := count, spindleCountSource := Src_manual\<rparr>\<rparr>),
         emit (EvSpindleCountUpdated count Src_manual)])"

section \<open>MID parsers\<close>

text \<open>\<^verbatim>\<open>_parse0061(p)\<close>; \<open>rv\<close> is \<^verbatim>\<open>this.state.protocol.revision\<close>.\<close>

definition parse0061 :: "int \<Rightarrow> string \<Rightarrow> result" where
  "parse0061 rv p =
     (if rv = 1 then
        (let torqueStatus = index p 22;
             angleStatus = index p 23
         in \<lparr>tighteningId = slice 0 10 p,
             spindle = Num 1,
             torqueCenti = Number (slice 10 16 p),
             angle = Number (slice 16 22 p),
             torqueStatus = torqueStatus,
             angleStatus = angleStatus,
             ok = (torqueStatus = Some CHR ''1'' \<and> angleStatus = Some CHR ''1''),
             extra = []\<rparr>)
      else if rv = 4 then
        \<lparr>tighteningId = slice 157 167 p,
         spindle = Num 1,
         torqueCenti = Number (slice 92 98 p),
         angle = Number (slice 113 118 p),
         torqueStatus = index p 72,
         angleStatus = index p 73,
         ok = char_is p 71 CHR ''1'',
         extra =
           [(''cellId'', FNum (Number (slice 0 4 p))),
            (''channelId'', FNum (Number (slice 4 6 p))),
            (''controllerName'', FStr (trim (slice 6 31 p))),
            (''vin'', FStr (trim (slice 31 56 p))),
            (''jobId'', FNum (Number (slice 56 60 p))),
            (''paramSetId'', FNum (Number (slice 60 63 p))),
            (''batchSize'', FNum (Number (slice 63 67 p))),
            (''batchCounter'', FNum (Number (slice 67 71 p))),
            (''torqueMin'', FCenti (Number (slice 74 80 p))),
            (''torqueMax'', FCenti (Number (slice 80 86 p))),
            (''torqueTarget'', FCenti (Number (slice 86 92 p))),
            (''angleMin'', FNum (Number (slice 98 103 p))),
            (''angleMax'', FNum (Number (slice 103 108 p))),
            (''angleTarget'', FNum (Number (slice 108 113 p))),
            (''timestamp'', FStr (slice 118 137 p)),
            (''lastPsetChange'', FStr (slice 137 156 p)),
            (''batchStatus'', FChar (index p 156))]\<rparr>
      else
        (let spindleNum = or_one (Number (slice 10 12 p));
             torqueStatus = charAt_or p 42 CHR ''0'';
             angleStatus = charAt_or p 43 CHR ''0'';
             batchStatus = charAt_or p 49 CHR ''0''
         in \<lparr>tighteningId = slice 0 10 p,
             spindle = spindleNum,
             torqueCenti = Number (slice 12 18 p),
             angle = Number (slice 18 24 p),
             torqueStatus = Some torqueStatus,
             angleStatus = Some angleStatus,
             ok = (torqueStatus = CHR ''1'' \<and> angleStatus = CHR ''1''),
             extra =
               [(''torqueMin'', FCenti (Number (slice 24 30 p))),
                (''torqueMax'', FCenti (Number (slice 30 36 p))),
                (''torqueFinal'', FCenti (Number (slice 36 42 p))),
                (''timestamp'', FStr (slice 44 63 p)),
                (''batchStatus'', FChar (Some batchStatus)),
                (''vin'', FStr (trim (slice 63 88 p))),
                (''jobId'', FNum (Number (slice 88 92 p))),
                (''paramSetId'', FNum (Number (slice 92 95 p)))]\<rparr>))"

definition parse0065 :: "string \<Rightarrow> result" where
  "parse0065 p =
     (let torqueStatus = charAt_or p 24 CHR ''0'';
          angleStatus = charAt_or p 25 CHR ''0''
      in \<lparr>tighteningId = slice 0 10 p,
          spindle = or_one (Number (slice 10 12 p)),
          torqueCenti = Number (slice 12 18 p),
          angle = Number (slice 18 24 p),
          torqueStatus = Some torqueStatus,
          angleStatus = Some angleStatus,
          ok = (torqueStatus = CHR ''1'' \<and> angleStatus = CHR ''1''),
          extra = [(''timestamp'', FStr (slice 26 45 p))]\<rparr>)"

text \<open>The loop of \<^verbatim>\<open>_parseAlarmList\<close> reads four characters at a time.\<close>

function parseAlarmList :: "string \<Rightarrow> string list" where
  "parseAlarmList str =
     (if str = [] then []
      else (let code = take 4 str
            in (if code \<noteq> ''0000'' then [code] else []) @ parseAlarmList (drop 4 str)))"
  by pat_completeness auto
termination
  by (relation "measure length") auto

declare parseAlarmList.simps [simp del]

text \<open>\<^verbatim>\<open>_parseMID(mid, p)\<close>; its first argument \<open>rv\<close> is \<^verbatim>\<open>this.state.protocol.revision\<close>, which
  \<^verbatim>\<open>_parse0061\<close> reads.\<close>

definition parseMID :: "int \<Rightarrow> jsnum \<Rightarrow> string \<Rightarrow> parsed" where
  "parseMID rv mid p =
     (if mid = Num 2 \<or> mid = Num 3 then
        (let revStr = trim (slice 0 2 p);
             revision = parseInt revStr
         in P_CommStart (if revision = NaN then 1 else truncated revision))
      else if mid = Num 4 then
        P_CommandError (Number (slice 0 4 p)) (Number (slice 4 8 p)) (trim (slice_from 8 p))
      else if mid = Num 5 then P_CommandAccepted (Number (slice 0 4 p))
      else if mid = Num 11 then P_ParamSet (Number (slice 0 3 p))
      else if mid = Num 21 then P_BatchDecrement (Number (slice 0 4 p))
      else if mid = Num 41 then
        P_ToolStatus (char_is p 0 CHR ''1'') (char_is p 1 CHR ''1'') (char_is p 2 CHR ''1'')
          (char_is p 3 CHR ''1'')
      else if mid = Num 51 then P_Vin (trim p)
      else if mid = Num 52 then P_VinRequired
      else if mid = Num 35 then P_Job (Number (slice 0 4 p))
      else if mid = Num 31 then
        P_Batch (Number (slice 0 4 p)) (Number (slice 4 8 p)) (Number (slice 8 12 p))
      else if mid = Num 61 then P_Result (parse0061 rv p)
      else if mid = Num 65 then P_Result (parse0065 p)
      else if mid = Num 70 then
        P_Alarm \<lparr>alarmCode = slice 0 4 p,
                 alarm_controllerReady = char_is p 4 CHR ''1'',
                 alarm_toolReady = char_is p 5 CHR ''1'',
                 alarm_timestamp = slice 6 25 p,
                 alarm_message = trim (slice_from 25 p)\<rparr>
      else if mid = Num 76 then
        P_AlarmStatus (char_is p 0 CHR ''1'') (parseAlarmList (slice_from 1 p))
      else if mid = Num 101 then
        P_MultiSpindle (slice 0 10 p) (Number (slice 10 12 p)) (char_is p 12 CHR ''1'')
          (slice 13 32 p)
      else P_Raw p)"

section \<open>Tightening lifecycle\<close>

text \<open>\<^verbatim>\<open>_clearWatchdog\<close>: any handle is truthy, armed or not.\<close>

definition clearWatchdog :: "client \<Rightarrow> client" where
  "clearWatchdog c =
     (if watchdog (tightening c) \<noteq> None
      then c\<lparr>tightening := (tightening c)\<lparr>watchdog := None\<rparr>\<rparr>
      else c)"

definition startWatchdog :: "client \<Rightarrow> client" where
  "startWatchdog c =
     (let c1 = clearWatchdog c in c1\<lparr>tightening := (tightening c1)\<lparr>watchdog := Some True\<rparr>\<rparr>)"

text \<open>
  The callback of the watchdog timer. It runs only while the timer is armed; it does not
  reset the \<open>watchdog\<close> field, which keeps the handle of the timer that has fired.
\<close>

definition watchdogFires :: proc where
  "watchdogFires = whenever (\<lambda>c. watchdog (tightening c) = Some True)
     (\<lambda>c. let partialResults = map snd (pendingSpindles (tightening c))
          in seqs
            [modify (\<lambda>c. c\<lparr>tightening := (tightening c)
               \<lparr>inProgress := False, pendingSpindles := [], watchdog := Some False\<rparr>\<rparr>),
             (\<lambda>c. emit (EvTighteningIncomplete (spindleCount (tool c))
                         (length partialResults) partialResults) c)] c)"

definition startTighteningCycle :: proc where
  "startTighteningCycle = seqs
     [modify (\<lambda>c. c\<lparr>tightening := (tightening c)
        \<lparr>inProgress := True, cycleStartTs := Some (now c)\<rparr>\<rparr>),
      modify startWatchdog,
      (\<lambda>c. emit (EvTighteningCycleStarted (now c)) c)]"

text \<open>
  The end of \<^verbatim>\<open>_handleTighteningResult\<close>, once \<open>results\<close> and \<open>overallOk\<close> are computed:
  the cycle state is cleared, the batch progresses, and the completion is emitted.
\<close>

definition finishCycle :: "result list \<Rightarrow> bool \<Rightarrow> proc" where
  "finishCycle results overallOk = seqs
     [modify (\<lambda>c. c\<lparr>tightening := (tightening c)
        \<lparr>pendingSpindles := [], inProgress := False\<rparr>\<rparr>),
      whenever (\<lambda>c. batch_active (batch c) \<and> \<not> batch_complete (batch c)) (seqs
        [modify (\<lambda>c. c\<lparr>batch := (batch c)
           \<lparr>batch_counter := js_inc (batch_counter (batch c))\<rparr>\<rparr>),
         (\<lambda>c. emit (EvBatchProgress (batch_counter (batch c)) (batch_size (batch c))
            (js_sub (to_number (batch_size (batch c))) (batch_counter (batch c)))) c),
         whenever (\<lambda>c. js_ge (batch_counter (batch c)) (to_number (batch_size (batch c))))
           (seqs
             [modify (\<lambda>c. c\<lparr>batch := (batch c)
                \<lparr>batch_complete := True, batch_active := False\<rparr>\<rparr>),
              (\<lambda>c. emit (EvBatchCompleted (batch c)) c)])]),
      (\<lambda>c. emit (EvTighteningCycleCompleted results overallOk
         (now c - (case cycleStartTs (tightening c) of None \<Rightarrow> 0 | Some t \<Rightarrow> t))) c)]"

text \<open>The part of \<^verbatim>\<open>_handleTighteningResult\<close> after the last result of a cycle is stored.\<close>

definition completeCycle :: proc where
  "completeCycle = seqs
     [modify clearWatchdog,
      (\<lambda>c. let results = map snd (pendingSpindles (tightening c));
               overallOk = list_all ok results
           in finishCycle results overallOk c)]"

text \<open>\<^verbatim>\<open>_handleTighteningResult(d)\<close>. The early \<^verbatim>\<open>return\<close> while results are missing is the
  negated test of the last step.\<close>

definition handleTighteningResult :: "result \<Rightarrow> proc" where
  "handleTighteningResult d = seqs
     [whenever (\<lambda>c. \<not> vinLocked (product c) \<and> vin (product c) \<noteq> None
                  \<and> vin (product c) \<noteq> Some []) (seqs
        [modify (\<lambda>c. c\<lparr>product := (product c)\<lparr>vinLocked := True\<rparr>\<rparr>),
         (\<lambda>c. emit (EvVinLocked (the (vin (product c)))) c)]),
      whenever (\<lambda>c. spindleCountSource (tool c) = Src_default
                  \<and> js_lt (spindleCount (tool c)) (spindle d)) (seqs
        [modify (\<lambda>c. c\<lparr>tool := (tool c)
           \<lparr>spindleCount := spindle d, spindleCountSource := Src_mid061\<rparr>\<rparr>),
         emit (EvSpindleCountUpdated (spindle d) Src_mid061)]),
      emit (EvSpindleResult d),
      modify (\<lambda>c. c\<lparr>tightening := (tightening c)
        \<lparr>pendingSpindles := map_set (spindle d) d (pendingSpindles (tightening c))\<rparr>\<rparr>),
      whenever (\<lambda>c. \<not> js_lt (Num (int (length (pendingSpindles (tightening c)))))
                      (spindleCount (tool c)))
        completeCycle]"

section \<open>MID to state: \<^verbatim>\<open>_handleMID\<close>\<close>

text \<open>\<^verbatim>\<open>_resolvePendingCommand(mid, success, data)\<close> resolves the first entry of that MID.\<close>

definition resolvePendingCommand :: "jsnum \<Rightarrow> bool \<Rightarrow> parsed option \<Rightarrow> proc" where
  "resolvePendingCommand mid success data c =
     (case find (\<lambda>e. Num (pc_mid (snd e)) = mid) (pendingCommands c) of
        None \<Rightarrow> (None, c)
      | Some e \<Rightarrow>
          seqs [modify (\<lambda>c. c\<lparr>pendingCommands := map_delete (fst e) (pendingCommands c)\<rparr>),
                emit (if success then EvCommandSuccess mid (fst e) data
                      else EvCommandFailed mid (fst e) data)] c)"

text \<open>
  The loop of \<^verbatim>\<open>_clearPendingCommands\<close> over the entries: each entry's timer is cancelled
  and \<^verbatim>\<open>commandAborted\<close> is emitted for it.
\<close>

fun abortEntries :: "(nat \<times> pending_command) list \<Rightarrow> proc" where
  "abortEntries [] = skip"
| "abortEntries (e # es) = seqs
     [modify (\<lambda>c. c\<lparr>pendingCommands :=
        map (\<lambda>x. if fst x = fst e then (fst x, (snd x)\<lparr>pc_timeout := False\<rparr>) else x)
          (pendingCommands c)\<rparr>),
      emit (EvCommandAborted (pc_mid (snd e)) (fst e)),
      abortEntries es]"

definition clearPendingCommands :: proc where
  "clearPendingCommands c = seqs
     [abortEntries (pendingCommands c),
      modify (\<lambda>c. c\<lparr>pendingCommands := []\<rparr>)] c"

text \<open>
  The switch of \<^verbatim>\<open>_handleMID(mid, d)\<close>. \<^verbatim>\<open>_onData\<close> passes \<open>d = _parseMID(mid, payload)\<close>, and
  both switch on the same \<open>mid\<close>, so the case taken is the constructor of \<open>d\<close>.
\<close>

fun handleCase :: "parsed \<Rightarrow> proc" where
  "handleCase (P_CommStart rv) = seqs
     [modify (\<lambda>c. c\<lparr>protocol := (protocol c)\<lparr>revision := rv\<rparr>,
                    connection := (connection c)\<lparr>linkLayerReady := True\<rparr>\<rparr>),
      emit (EvLinkEstablished rv),
      subscribeTighteningResults,
      subscribeAlarms]"
| "handleCase (P_CommandError failedMid code message) = seqs
     [resolvePendingCommand failedMid False (Some (P_CommandError failedMid code message)),
      emit (EvCommandError (P_CommandError failedMid code message)),
      whenever (\<lambda>c. pendingReset (batch c)) (seqs
        [modify (\<lambda>c. c\<lparr>batch := (batch c)\<lparr>pendingReset := False\<rparr>\<rparr>),
         emit (EvBatchResetFailed (P_CommandError failedMid code message))])]"
| "handleCase (P_CommandAccepted acceptedMid) = seqs
     [resolvePendingCommand acceptedMid True None,
      emit (EvCommandAccepted acceptedMid),
      whenever (\<lambda>c. pendingReset (batch c) \<and> acceptedMid = Num 20) (seqs
        [modify (\<lambda>c. c\<lparr>batch := (batch c)
           \<lparr>batch_counter := Num 0, batch_complete := False, pendingReset := False\<rparr>\<rparr>),
         emit EvBatchResetConfirmed])]"
| "handleCase (P_ParamSet n) =
     modify (\<lambda>c. c\<lparr>job := (job c)\<lparr>paramSetId := Some n\<rparr>\<rparr>)"
| "handleCase (P_BatchDecrement batchCounter) =
     modify (\<lambda>c. c\<lparr>batch := (batch c)\<lparr>batch_counter := batchCounter\<rparr>\<rparr>)"
| "handleCase (P_ToolStatus controllerReady toolEnabled toolRunning alarmActive) = seqs
     [modify (\<lambda>c. c\<lparr>controller := (controller c)\<lparr>ready := controllerReady\<rparr>\<rparr>),
      modify (\<lambda>c. c\<lparr>tool := (tool c)\<lparr>enabled := toolEnabled\<rparr>\<rparr>),
      modify (\<lambda>c. c\<lparr>tool := (tool c)\<lparr>running := toolRunning\<rparr>\<rparr>),
      modify (\<lambda>c. c\<lparr>controller := (controller c)\<lparr>errorActive := alarmActive\<rparr>\<rparr>),
      whenever (\<lambda>c. toolRunning \<and> \<not> inProgress (tightening c)) startTighteningCycle]"
| "handleCase (P_Vin v) =
     modify (\<lambda>c. c\<lparr>product := (product c)\<lparr>vin := Some v, vinValid := True\<rparr>\<rparr>)"
| "handleCase P_VinRequired = seqs
     [modify (\<lambda>c. c\<lparr>product := (product c)\<lparr>vinRequired := True\<rparr>\<rparr>),
      emit EvVinRequired]"
| "handleCase (P_Job n) = seqs
     [modify (\<lambda>c. c\<lparr>job := (job c)\<lparr>jobId := Some n, job_active := True, job_locked := True\<rparr>\<rparr>),
      modify (\<lambda>c. c\<lparr>product := (product c)\<lparr>vinLocked := False\<rparr>\<rparr>),
      emit (EvJobSelected n)]"
| "handleCase (P_Batch bid bsize bcounter) = seqs
     [modify (\<lambda>c. c\<lparr>batch := \<lparr>batchId = Some bid, batch_size = Some bsize,
        batch_counter = bcounter, batch_active = True, batch_complete = False,
        batch_locked = True, pendingReset = False\<rparr>\<rparr>),
      modify (\<lambda>c. c\<lparr>product := (product c)\<lparr>vinLocked := False\<rparr>\<rparr>),
      (\<lambda>c. emit (EvBatchStarted (batch c)) c)]"
| "handleCase (P_Result d) =
     tryFinally (handleTighteningResult d) (void (sendMID 62 [] False))"
| "handleCase (P_Alarm a) = seqs
     [modify (\<lambda>c. c\<lparr>controller := (controller c)\<lparr>alarms := alarms (controller c) @ [a]\<rparr>\<rparr>),
      modify (\<lambda>c. c\<lparr>controller := (controller c)\<lparr>errorActive := True\<rparr>\<rparr>),
      emit (EvAlarm a)]"
| "handleCase (P_AlarmStatus alarmStatus currentAlarms) = seqs
     [whenever (\<lambda>c. \<not> alarmStatus)
        (modify (\<lambda>c. c\<lparr>controller := (controller c)\<lparr>alarms := [], errorActive := False\<rparr>\<rparr>)),
      emit (EvAlarmStatus alarmStatus currentAlarms)]"
| "handleCase (P_MultiSpindle cycleId n overallOk ts) = seqs
     [whenever (\<lambda>c. spindleCountSource (tool c) \<noteq> Src_config
                  \<and> spindleCountSource (tool c) \<noteq> Src_manual \<and> js_lt (Num 0) n) (seqs
        [modify (\<lambda>c. c\<lparr>tool := (tool c)
           \<lparr>spindleCount := n, spindleCountSource := Src_mid101\<rparr>\<rparr>),
         emit (EvSpindleCountUpdated n Src_mid101)]),
      emit (EvMultiSpindleCycleComplete (P_MultiSpindle cycleId n overallOk ts))]"
| "handleCase (P_Raw p) = skip"

definition handleMID :: "jsnum \<Rightarrow> parsed \<Rightarrow> proc" where
  "handleMID mid d = seqs
     [modify (\<lambda>c. c\<lparr>connection := (connection c)\<lparr>lastMID := Some mid\<rparr>\<rparr>),
      handleCase d,
      emitStateChanged]"

section \<open>Inbound data: \<^verbatim>\<open>_onData\<close>\<close>

text \<open>The \<^verbatim>\<open>try\<close> block of \<^verbatim>\<open>_onData\<close> for one frame, with its \<^verbatim>\<open>catch\<close>.\<close>

definition processFrame :: "jsnum \<Rightarrow> string \<Rightarrow> proc" where
  "processFrame mid payload =
     tryCatch (\<lambda>c. handleMID mid (parseMID (revision (protocol c)) mid payload) c)
       (\<lambda>err. emit (EvParseError mid err))"

text \<open>The tests of one iteration of the loop of \<^verbatim>\<open>_onData\<close> on the first four characters
  of the buffer: \<^verbatim>\<open>!/^\d{4}$/.test(lenStr)\<close>, \<^verbatim>\<open>parseInt(lenStr, 10)\<close>, and
  \<^verbatim>\<open>len < 20 || len > 9999\<close>, the first and the last only with \<^verbatim>\<open>validateFrames\<close>.\<close>

definition invalidLength :: "client \<Rightarrow> bool" where
  "invalidLength c =
     (let lenStr = slice 0 4 (buffer c)
      in validateFrames c \<and> \<not> (length lenStr = 4 \<and> list_all is_digit lenStr))"

definition frameLength :: "client \<Rightarrow> jsnum" where
  "frameLength c = parseInt (slice 0 4 (buffer c))"

definition lengthOutOfRange :: "client \<Rightarrow> bool" where
  "lengthOutOfRange c =
     (validateFrames c \<and> (js_lt (frameLength c) (Num 20) \<or> js_lt (Num 9999) (frameLength c)))"

text \<open>
  The \<^verbatim>\<open>while\<close> loop of \<^verbatim>\<open>_onData\<close>. With \<^verbatim>\<open>validateFrames\<close> off, a length field that reads
  as 0 or \<open>NaN\<close> leaves the buffer as it is and the loop does not end, so the loop is
  given fuel and \<open>None\<close> says it ran out. An exception that leaves the loop (a listener
  of \<^verbatim>\<open>frameError\<close> or of \<^verbatim>\<open>parseError\<close> threw) ends the call.
\<close>

fun onData_loop :: "nat \<Rightarrow> client \<Rightarrow> (error option \<times> client) option" where
  "onData_loop 0 c = None"
| "onData_loop (Suc n) c =
     (if length (buffer c) < 4 then Some (None, c)
      else if invalidLength c then
        (case emit (EvFrameErrorInvalidLength (slice 0 20 (buffer c))) c of
           (Some e, c') \<Rightarrow> Some (Some e, c')
         | (None, c') \<Rightarrow> onData_loop n (c'\<lparr>buffer := slice_from 1 (buffer c')\<rparr>))
      else if lengthOutOfRange c then
        (case emit (EvFrameErrorLengthOutOfRange (frameLength c)) c of
           (Some e, c') \<Rightarrow> Some (Some e, c')
         | (None, c') \<Rightarrow> onData_loop n (c'\<lparr>buffer := slice_from 1 (buffer c')\<rparr>))
      else if js_lt (Num (int (length (buffer c)))) (frameLength c) then Some (None, c)
      else
        let frame = slice_num (Num 4) (frameLength c) (buffer c);
            c1 = c\<lparr>buffer := slice_from_num (frameLength c) (buffer c)\<rparr>;
            mid = parseInt (slice 0 4 frame);
            payload = slice_from 16 frame
        in (case processFrame mid payload c1 of
              (Some e, c') \<Rightarrow> Some (Some e, c')
            | (None, c') \<Rightarrow> onData_loop n c'))"

definition onData :: "nat \<Rightarrow> string \<Rightarrow> client \<Rightarrow> (error option \<times> client) option" where
  "onData fuel data c =
     onData_loop fuel
       ((touchTraffic c)\<lparr>buffer := buffer c @ filter (\<lambda>ch. ch \<noteq> CHR 0x00) data\<rparr>)"

section \<open>Connection and heartbeat\<close>

definition stopReconnect :: "client \<Rightarrow> client" where
  "stopReconnect c = (if reconnectTimer c \<noteq> None then c\<lparr>reconnectTimer := None\<rparr> else c)"

definition scheduleReconnect :: proc where
  "scheduleReconnect = seqs
     [modify stopReconnect,
      modify (\<lambda>c. c\<lparr>connection := (connection c)\<lparr>reconnecting := True\<rparr>\<rparr>),
      modify (\<lambda>c. c\<lparr>connection := (connection c)
        \<lparr>reconnectAttempts := reconnectAttempts (connection c) + 1\<rparr>\<rparr>),
      (\<lambda>c. emit (EvReconnecting (reconnectAttempts (connection c)) (reconnectDelay c)) c),
      modify (\<lambda>c. c\<lparr>reconnectTimer := Some True\<rparr>)]"

text \<open>\<^verbatim>\<open>connect()\<close> up to the creation of the socket.\<close>

definition connect :: "client \<Rightarrow> client" where
  "connect c = (if connected (connection c) then c else c\<lparr>hasSocket := True\<rparr>)"

text \<open>The callback of \<^verbatim>\<open>net.createConnection\<close>: the TCP connection is established.\<close>

definition onConnect :: proc where
  "onConnect = seqs
     [modify (\<lambda>c. c\<lparr>connection := (connection c)
        \<lparr>connected := True, reconnecting := False, reconnectAttempts := 0\<rparr>\<rparr>),
      modify (\<lambda>c. c\<lparr>reconnectDelay := 1000\<rparr>),
      whenever (\<lambda>c. configuredSpindleCount c \<noteq> None)
        (modify (\<lambda>c. c\<lparr>tool := (tool c)\<lparr>spindleCount := the (configuredSpindleCount c),
           spindleCountSource := Src_config\<rparr>\<rparr>)),
      emit EvConnected,
      modify (\<lambda>c. c\<lparr>heartbeatTimer := True\<rparr>),
      void (sendMID 1 [] False)]"

text \<open>
  The socket's \<^verbatim>\<open>error\<close> handler. \<open>byTimer\<close>: the \<^verbatim>\<open>connect()\<close> whose promise is rejected
  was called by the reconnect timer, whose \<^verbatim>\<open>catch\<close> doubles the delay and reschedules.
\<close>

definition onSocketError :: "bool \<Rightarrow> proc" where
  "onSocketError byTimer = seqs
     [emit EvError,
      whenever (\<lambda>c. \<not> connected (connection c) \<and> byTimer) (seqs
        [modify (\<lambda>c. c\<lparr>reconnectDelay := min (reconnectDelay c * 2) 30000\<rparr>),
         scheduleReconnect])]"

text \<open>The callback of the reconnect timer, which runs only while the timer is armed.\<close>

definition reconnectTimerFires :: "client \<Rightarrow> client" where
  "reconnectTimerFires c =
     (if reconnectTimer c \<noteq> Some True then c else connect (c\<lparr>reconnectTimer := Some False\<rparr>))"

definition onClose :: proc where
  "onClose c =
     (let wasConnected = connected (connection c)
      in seqs
        [modify (\<lambda>c. c\<lparr>heartbeatTimer := False\<rparr>),
         modify clearWatchdog,
         clearPendingCommands,
         modify (\<lambda>c. c\<lparr>connection := (connection c)
           \<lparr>connected := False, linkLayerReady := False\<rparr>\<rparr>),
         modify (\<lambda>c. c\<lparr>buffer := []\<rparr>),
         emit EvDisconnected,
         whenever (\<lambda>c. autoReconnect c \<and> wasConnected) scheduleReconnect] c)"

text \<open>\<^verbatim>\<open>disconnect()\<close>; destroying the socket leads to its \<^verbatim>\<open>close\<close> event later.\<close>

definition disconnect :: proc where
  "disconnect = seqs
     [modify (\<lambda>c. c\<lparr>autoReconnect := False\<rparr>),
      modify stopReconnect,
      whenever hasSocket (void (sendMID 2 [] False))]"

text \<open>The tick of the heartbeat interval, which runs only while the interval is set.\<close>

definition heartbeatTick :: proc where
  "heartbeatTick c =
     (if \<not> heartbeatTimer c then (None, c)
      else if \<not> connected (connection c) then (None, c)
      else (let idle = now c - lastTrafficTs c
            in if idle \<ge> 7000 then void (sendMID 9999 [] False) c else (None, c)))"

section \<open>Runs of the client\<close>

text \<open>
  What can happen to a client between two frames: a call of the public interface, an
  event of the socket, a timer that fires, or time that passes.
\<close>

datatype action =
    Call_connect
  | Call_disconnect
  | Call_sendMID int string bool
  | Call_subscribeTighteningResults
  | Call_unsubscribeTighteningResults
  | Call_subscribeAlarms
  | Call_unsubscribeAlarms
  | Call_acknowledgeAlarm
  | Call_startTightening
  | Call_downloadVIN string
  | Call_selectJob int
  | Call_selectParameterSet int
  | Call_enableTool
  | Call_disableTool
  | Call_resetBatch
  | Call_decrementBatch
  | Call_setSpindleCount jsnum
  | On_connect
  | On_close
  | On_error bool
  | Tick_heartbeat
  | Fire_reconnect
  | Fire_commandTimeout nat
  | Fire_watchdog
  | Advance_clock int

fun exec :: "action \<Rightarrow> proc" where
  "exec Call_connect = modify connect"
| "exec Call_disconnect = disconnect"
| "exec (Call_sendMID mid payload expectAck) = void (sendMID mid payload expectAck)"
| "exec Call_subscribeTighteningResults = subscribeTighteningResults"
| "exec Call_unsubscribeTighteningResults = unsubscribeTighteningResults"
| "exec Call_subscribeAlarms = subscribeAlarms"
| "exec Call_unsubscribeAlarms = unsubscribeAlarms"
| "exec Call_acknowledgeAlarm = acknowledgeAlarm"
| "exec Call_startTightening = void startTightening"
| "exec (Call_downloadVIN v) = void (downloadVIN v)"
| "exec (Call_selectJob n) = void (selectJob n)"
| "exec (Call_selectParameterSet n) = void (selectParameterSet n)"
| "exec Call_enableTool = void enableTool"
| "exec Call_disableTool = void disableTool"
| "exec Call_resetBatch = void resetBatch"
| "exec Call_decrementBatch = void decrementBatch"
| "exec (Call_setSpindleCount n) = setSpindleCount n"
| "exec On_connect = whenever hasSocket onConnect"
| "exec On_close = whenever hasSocket onClose"
| "exec (On_error byTimer) = whenever hasSocket (onSocketError byTimer)"
| "exec Tick_heartbeat = heartbeatTick"
| "exec Fire_reconnect = modify reconnectTimerFires"
| "exec (Fire_commandTimeout cmdId) = commandTimeoutFires cmdId"
| "exec Fire_watchdog = watchdogFires"
| "exec (Advance_clock t) = modify (\<lambda>c. if now c \<le> t then c\<lparr>now := t\<rparr> else c)"

text \<open>
  One step of a run, at the granularity of a frame: an action, or one of the things an
  iteration of the loop of \<^verbatim>\<open>_onData\<close> does (the traffic stamp and the append to the buffer,
  a \<^verbatim>\<open>frameError\<close> and the byte it skips, a frame taken off the buffer, the handling of a
  frame).
\<close>

inductive step :: "client \<Rightarrow> client \<Rightarrow> bool" where
  step_action: "step c (snd (exec a c))"
| step_touch: "step c (touchTraffic c)"
| step_buffer: "step c (c\<lparr>buffer := b\<rparr>)"
| step_emit_invalid_length: "step c (snd (emit (EvFrameErrorInvalidLength s) c))"
| step_emit_out_of_range: "step c (snd (emit (EvFrameErrorLengthOutOfRange n) c))"
| step_frame: "step c (snd (processFrame mid payload c))"

inductive reachable :: "client \<Rightarrow> client \<Rightarrow> bool" for c0 where
  reachable_init: "reachable c0 c0"
| reachable_step: "reachable c0 c \<Longrightarrow> step c c' \<Longrightarrow> reachable c0 c'"

section \<open>Notions used in the proofs\<close>

text \<open>\<open>sat R p\<close>: the state a procedure leaves is related by \<open>R\<close> to the state it found,
  whether it throws or not.\<close>

definition sat :: "(client \<Rightarrow> client \<Rightarrow> bool) \<Rightarrow> proc \<Rightarrow> bool" where
  "sat R p = (\<forall>c. R c (snd (p c)))"

text \<open>
  The command table is in order: every key was issued by the sequence counter, and no
  two entries share a MID unless duplicate commands are allowed.
\<close>

definition pending_ok :: "client \<Rightarrow> bool" where
  "pending_ok c =
     (list_all (\<lambda>e. fst e \<le> commandSeq c) (pendingCommands c) \<and>
      (allowDuplicateCommands c \<or> distinct (map (\<lambda>e. pc_mid (snd e)) (pendingCommands c))))"

text \<open>A complete batch is not active.\<close>

definition batch_ok :: "client \<Rightarrow> bool" where
  "batch_ok c = (\<not> batch_complete (batch c) \<or> \<not> batch_active (batch c))"

text \<open>What every step keeps: the configuration and the two invariants.\<close>

definition stable :: "client \<Rightarrow> client \<Rightarrow> bool" where
  "stable c c' =
     (allowDuplicateCommands c' = allowDuplicateCommands c \<and>
      listenerThrows c' = listenerThrows c \<and>
      (pending_ok c \<longrightarrow> pending_ok c') \<and>
      (batch_ok c \<longrightarrow> batch_ok c'))"

text \<open>The events emitted between two states.\<close>

definition newEvents :: "client \<Rightarrow> client \<Rightarrow> event list" where
  "newEvents c c' = drop (length (emitted c)) (emitted c')"

text \<open>What \<^verbatim>\<open>_handleMID\<close> never writes.\<close>

definition untouched :: "client \<Rightarrow> client \<Rightarrow> bool" where
  "untouched c c' =
     (buffer c' = buffer c \<and> hasSocket c' = hasSocket c \<and> validateFrames c' = validateFrames c \<and>
      listenerThrows c' = listenerThrows c \<and> timeoutJSON c' = timeoutJSON c \<and> now c' = now c)"

section \<open>Definitions that follow the specification, and scenario states\<close>

text \<open>
  The interlock table of the specification (section 4.F), in its order: each rule is the
  predicate that must hold and the error code of its violation.
\<close>

definition interlock_table :: "((client \<Rightarrow> bool) \<times> interlock_code) list" where
  "interlock_table =
     [(\<lambda>s. connected (connection s), NOT_CONNECTED),
      (\<lambda>s. linkLayerReady (connection s), LINK_NOT_READY),
      (\<lambda>s. enabled (tool s), TOOL_DISABLED),
      (\<lambda>s. \<not> running (tool s), TOOL_RUNNING),
      (\<lambda>s. ready (controller s), CTRL_NOT_READY),
      (\<lambda>s. \<not> errorActive (controller s), ALARM_ACTIVE),
      (\<lambda>s. \<not> vinRequired (product s) \<or> vinValid (product s), VIN_REQUIRED),
      (\<lambda>s. job_active (job s), JOB_NOT_ACTIVE)]"

text \<open>Scenario 5 of the specification: the link is up, the tool is disabled and the
  controller is not ready.\<close>

definition scenario5 :: client where
  "scenario5 = defaultClient\<lparr>connection := (connection defaultClient)
     \<lparr>connected := True, linkLayerReady := True\<rparr>\<rparr>"

text \<open>The client after \<^verbatim>\<open>connect()\<close> and the establishment of its TCP connection.\<close>

definition connectedClient :: client where
  "connectedClient = snd (exec On_connect (snd (exec Call_connect defaultClient)))"

text \<open>The batch invariant of the specification (section 3): the counter is at most the
  size whenever the size is known.\<close>

definition counter_within_size :: "client \<Rightarrow> bool" where
  "counter_within_size c = (case batch_size (batch c) of None \<Rightarrow> True
     | Some n \<Rightarrow> js_ge n (batch_counter (batch c)))"

text \<open>Two MID 0031 frames of a controller: batch 1 of size 5 with the counter at 7, and
  with the counter at 1; and the client after each.\<close>

definition batchFrame :: string where
  "batchFrame = ''0032003100100101    000100050007''"

definition afterBatchFrame :: client where
  "afterBatchFrame = (case onData 2 batchFrame connectedClient of
     Some r \<Rightarrow> snd r | None \<Rightarrow> connectedClient)"

definition batchFrame1 :: string where
  "batchFrame1 = ''0032003100100101    000100050001''"

definition afterBatchFrame1 :: client where
  "afterBatchFrame1 = (case onData 2 batchFrame1 connectedClient of
     Some r \<Rightarrow> snd r | None \<Rightarrow> connectedClient)"

text \<open>
  The spindle field of a frame's header, as the specification places it (section 4.A:
  after the 4-byte MID, the 3-byte revision, the NoAck byte and the 2-byte station),
  read from a frame without its length prefix.
\<close>

definition header_spindle :: "string \<Rightarrow> jsnum" where
  "header_spindle frame = Number (slice 10 12 frame)"

text \<open>The results that were announced by \<^verbatim>\<open>spindleResult\<close> events.\<close>

fun spindleResults :: "event list \<Rightarrow> result list" where
  "spindleResults [] = []"
| "spindleResults (EvSpindleResult d # evs) = d # spindleResults evs"
| "spindleResults (ev # evs) = spindleResults evs"

text \<open>
  A MID 0061 frame in the Revision 1 layout from station 2, spindle 2: tightening
  \<^verbatim>\<open>0000000001\<close>, torque 12.34 Nm, angle 90 degrees, both statuses OK; and the client
  (whose protocol revision is 1) after it.
\<close>

definition resultFrame :: string where
  "resultFrame = ''0044006100100202    000000000100123400009011''"

definition afterResultFrame :: client where
  "afterResultFrame = (case onData 2 resultFrame connectedClient of
     Some r \<Rightarrow> snd r | None \<Rightarrow> connectedClient)"

text \<open>A listener of \<^verbatim>\<open>spindleResult\<close> that throws, and a connected client that has it.\<close>

definition throwingListener :: "event list \<Rightarrow> bool" where
  "throwingListener evs =
     (evs \<noteq> [] \<and> (case last evs of EvSpindleResult d \<Rightarrow> True | _ \<Rightarrow> False))"

definition throwingClient :: client where
  "throwingClient = connectedClient\<lparr>listenerThrows := throwingListener\<rparr>"

text \<open>Scenario 6 of the specification: a batch of size 10 with the counter at 5 (reported
  by a MID 0031 frame).\<close>

definition batchFrame5 :: string where
  "batchFrame5 = ''0032003100100101    000100100005''"

definition afterBatchFrame5 :: client where
  "afterBatchFrame5 = (case onData 2 batchFrame5 connectedClient of
     Some r \<Rightarrow> snd r | None \<Rightarrow> connectedClient)"

text \<open>
  The controller rejects another command while the reset is pending, and accepts the
  reset afterwards: \<^verbatim>\<open>enableTool()\<close> and \<^verbatim>\<open>resetBatch()\<close> are called on the batch of size
  10 with the counter at 5, then a MID 0004 against MID 0042 arrives (error code 1), then
  the MID 0005 for MID 0020.
\<close>

definition resetRequested :: client where
  "resetRequested = snd (resetBatch (snd (enableTool afterBatchFrame5)))"

definition afterOtherError :: client where
  "afterOtherError = snd (processFrame (Num 4) ''00420001'' resetRequested)"

definition afterLateAccept :: client where
  "afterLateAccept = snd (processFrame (Num 5) ''0020'' afterOtherError)"

text \<open>The same acceptance when no MID 0004 came before it.\<close>

definition afterPromptAccept :: client where
  "afterPromptAccept = snd (processFrame (Num 5) ''0020'' resetRequested)"

text \<open>The field of an object tree at a path of property names.\<close>

fun field_at :: "string list \<Rightarrow> jsval \<Rightarrow> jsval option" where
  "field_at [] v = Some v"
| "field_at (k # ks) (VObj kvs) = (case map_of kvs k of None \<Rightarrow> None | Some v \<Rightarrow> field_at ks v)"
| "field_at (k # ks) v = None"

text \<open>A frame of the minimal length whose MID field is not a number, and the client
  after it.\<close>

definition oddFrame :: string where
  "oddFrame = ''0020ABCD00100101    ''"

definition afterOddFrame :: client where
  "afterOddFrame = (case onData 2 oddFrame connectedClient of
     Some r \<Rightarrow> snd r | None \<Rightarrow> connectedClient)"

section \<open>Scenarios of tightening cycles and batches\<close>

text \<open>The two events that end a tightening cycle, and the event that starts one.\<close>

fun is_completed :: "event \<Rightarrow> bool" where
  "is_completed (EvTighteningCycleCompleted results overallOk duration) = True"
| "is_completed ev = False"

fun is_incomplete :: "event \<Rightarrow> bool" where
  "is_incomplete (EvTighteningIncomplete expected received results) = True"
| "is_incomplete ev = False"

fun is_started :: "event \<Rightarrow> bool" where
  "is_started (EvTighteningCycleStarted ts) = True"
| "is_started ev = False"

definition cycleEvents :: "client \<Rightarrow> event list" where
  "cycleEvents c = filter (\<lambda>ev. is_started ev \<or> is_completed ev \<or> is_incomplete ev) (emitted c)"

text \<open>
  A connected client with the default single spindle is told by a MID 0041 (at time 0)
  that the tool runs. No result arrives: after 8000 ms the watchdog fires. At 8500 ms the
  result of the spindle arrives (a MID 0061 payload of Revision 1).
\<close>

definition resultPayload :: string where
  "resultPayload = ''000000000100123400009011''"

definition theResult :: result where
  "theResult = \<lparr>tighteningId = ''0000000001'', spindle = Num 1, torqueCenti = Num 1234,
     angle = Num 90, torqueStatus = Some CHR ''1'', angleStatus = Some CHR ''1'', ok = True,
     extra = []\<rparr>"

definition runningClient :: client where
  "runningClient = snd (processFrame (Num 41) ''1110'' connectedClient)"

definition expiredClient :: client where
  "expiredClient = snd (exec Fire_watchdog (snd (exec (Advance_clock 8000) runningClient)))"

definition lateResultClient :: client where
  "lateResultClient =
     snd (processFrame (Num 61) resultPayload (snd (exec (Advance_clock 8500) expiredClient)))"

text \<open>The socket closes during the cycle and the client reconnects; the controller
  reports again that the tool runs; 8000 ms pass and the watchdog timer is due.\<close>

definition closedClient :: client where
  "closedClient = snd (exec On_close runningClient)"

definition reconnectedClient :: client where
  "reconnectedClient = snd (exec On_connect (snd (exec Fire_reconnect closedClient)))"

definition runningAgainClient :: client where
  "runningAgainClient = snd (processFrame (Num 41) ''1110'' reconnectedClient)"

definition noWatchdogClient :: client where
  "noWatchdogClient = snd (exec Fire_watchdog (snd (exec (Advance_clock 8000) runningAgainClient)))"

text \<open>During the cycle of \<open>runningClient\<close> the controller reports parameter set 5 (MID 0011).\<close>

definition duringCycleClient :: client where
  "duringCycleClient = snd (processFrame (Num 11) ''005'' runningClient)"

text \<open>
  Batches: the counter 9 is reported by a MID 0021 for the batch of size 5; a batch of
  size 5 is reported with the counter at 5, and then a cycle completes; and on a client whose
  listener of \<^verbatim>\<open>batchProgress\<close> throws, a batch of size 5 is reported with the counter at 4,
  and then a cycle completes.
\<close>

definition afterDecrement :: client where
  "afterDecrement = snd (processFrame (Num 21) ''0009'' afterBatchFrame1)"

definition fullBatchClient :: client where
  "fullBatchClient = snd (processFrame (Num 31) ''000100050005'' connectedClient)"

definition afterFullBatchCycle :: client where
  "afterFullBatchCycle = snd (processFrame (Num 61) resultPayload fullBatchClient)"

definition progressListener :: "event list \<Rightarrow> bool" where
  "progressListener evs =
     (evs \<noteq> [] \<and> (case last evs of EvBatchProgress k n r \<Rightarrow> True | _ \<Rightarrow> False))"

definition progressInitial :: client where
  "progressInitial = createClient True True None False progressListener (\<lambda>armed. None) 0"

definition progressClient :: client where
  "progressClient = snd (exec On_connect (snd (exec Call_connect progressInitial)))"

definition lastOfBatchClient :: client where
  "lastOfBatchClient = snd (processFrame (Num 31) ''000100050004'' progressClient)"

definition afterThrownProgress :: client where
  "afterThrownProgress = snd (processFrame (Num 61) resultPayload lastOfBatchClient)"

section \<open>Numbers\<close>

text \<open>Integers below \<open>2 ^ 53\<close> in absolute value are numbers: rounding leaves them as they are.\<close>

lemma reduce_power: "reduce (m * 2 ^ k) k = Num m"
  by (induction k arbitrary: m) (simp_all add: mult.assoc [symmetric])

lemma bitlen_bound: "n < 2 ^ k \<Longrightarrow> bitlen n \<le> k"
proof (induction k arbitrary: n)
  case 0
  then show ?case by (simp add: bitlen.simps)
next
  case (Suc k)
  then have "n div 2 < 2 ^ k" by simp
  from Suc.IH [OF this] show ?case
    by (subst bitlen.simps) simp
qed

lemma round_half_even_1: "round_half_even n 1 = n"
  by (simp add: round_half_even_def)

lemma to_double_int:
  assumes "\<bar>k\<bar> < 2 ^ 53"
  shows "to_double k 1 = Num k"
proof (cases "k = 0")
  case True
  then show ?thesis by (simp add: to_double_def)
next
  case False
  let ?a = "\<bar>k\<bar>"
  let ?e = "max (floor_log2 ?a 1) (- 1022)"
  have b1: "bitlen 1 = 1"
    by (simp add: bitlen.simps)
  from assms have "bitlen ?a \<le> 53"
    by (rule bitlen_bound)
  then have "floor_log2 ?a 1 \<le> 52"
    by (simp add: floor_log2_def b1 Let_def)
  then have e: "?e \<le> 52"
    by simp
  have "scaled (x * 2 ^ nat (52 - ?e)) (?e - 52) = Num x" for x
  proof (cases "?e = 52")
    case True
    then show ?thesis by (simp add: scaled_def)
  next
    case False
    with e have "?e < 52" by simp
    then have "scaled (x * 2 ^ nat (52 - ?e)) (?e - 52) = reduce (x * 2 ^ nat (52 - ?e)) (nat (52 - ?e))"
      by (simp add: scaled_def)
    then show ?thesis by (simp only: reduce_power)
  qed
  from this [of k] this [of "- k"] False e show ?thesis
    by (auto simp: to_double_def Let_def round_half_even_1 abs_if)
qed

section \<open>Evaluation of the string primitives\<close>

lemma digits_0: "digits 0 = ''0''"
  by (simp add: digits.simps digit_char_def)

lemma digits_Suc0: "digits (Suc 0) = ''1''"
  by (simp add: digits.simps digit_char_def)

lemma digits_1: "digits 1 = ''1''"
  by (simp add: digits.simps digit_char_def)

lemma digits_numeral:
  "digits (numeral k) =
     (if numeral k < (10::nat) then [digit_char (numeral k)]
      else digits (numeral k div 10) @ [digit_char (numeral k mod 10)])"
  by (subst digits.simps) simp

lemmas digits_eval = digits_0 digits_1 digits_Suc0 digits_numeral digit_char_def

section \<open>The interlock gate\<close>

lemma check_startTightening_find:
  "check ''startTightening'' c =
     map_option (\<lambda>r. InterlockError (snd r)) (find (\<lambda>r. \<not> fst r c) interlock_table)"
  by (simp add: check_def interlock_table_def)

text \<open>
  Claim C1. Whenever a rule of the interlock table is violated, \<^verbatim>\<open>startTightening()\<close>
  throws the interlock error of the violated rule with the smallest index, and the
  client is exactly as it was before the call: nothing was written to the socket and no
  command was registered.
\<close>

theorem startTightening_interlock_order:
  assumes "i < length interlock_table"
      and "\<not> fst (interlock_table ! i) c"
      and "\<forall>j<i. fst (interlock_table ! j) c"
  shows "startTightening c = (Inl (InterlockError (snd (interlock_table ! i))), c)"
proof -
  have "find (\<lambda>r. \<not> fst r c) interlock_table = Some (interlock_table ! i)"
    unfolding find_Some_iff using assms by blast
  then have "check ''startTightening'' c = Some (InterlockError (snd (interlock_table ! i)))"
    by (simp add: check_startTightening_find)
  then show ?thesis
    by (simp add: startTightening_def)
qed

theorem startTightening_interlock_order_witness:
  "startTightening scenario5 = (Inl (InterlockError TOOL_DISABLED), scenario5)"
  using startTightening_interlock_order [of 2 scenario5]
  by (simp add: interlock_table_def scenario5_def defaultClient_def createClient_def
      nth_Cons' less_Suc_eq numeral_2_eq_2)

section \<open>Reasoning about procedures\<close>

lemma snd_modify [simp]: "snd (modify f c) = f c"
  by (simp add: modify_def)

lemma fst_modify [simp]: "fst (modify f c) = None"
  by (simp add: modify_def)

lemma snd_skip [simp]: "snd (skip c) = c"
  by (simp add: skip_def)

lemma fst_skip [simp]: "fst (skip c) = None"
  by (simp add: skip_def)

lemma snd_throw [simp]: "snd (throw e c) = c"
  by (simp add: throw_def)

lemma snd_emit [simp]: "snd (emit ev c) = c\<lparr>emitted := emitted c @ [ev]\<rparr>"
  by (simp add: emit_def Let_def)

lemma fst_emit: "fst (emit ev c) = (if listenerThrows c (emitted c @ [ev]) then Some ListenerThrew else None)"
  by (simp add: emit_def Let_def)

lemma andThen_cases:
  "andThen a b c = (if fst (a c) = None then b (snd (a c)) else a c)"
  by (cases "a c") (auto simp: andThen_def)

lemma whenever_cases: "whenever cond a c = (if cond c then a c else (None, c))"
  by (simp add: whenever_def)

lemma snd_tryFinally [simp]: "snd (tryFinally a b c) = snd (b (snd (a c)))"
  by (simp add: tryFinally_def split: prod.splits option.splits)

lemma snd_void [simp]: "snd (void m c) = snd (m c)"
  by (simp add: void_def split: prod.splits sum.splits)

lemma fst_void: "fst (void m c) = (case fst (m c) of Inl e \<Rightarrow> Some e | Inr v \<Rightarrow> None)"
  by (simp add: void_def split: prod.splits sum.splits)

lemma satI: "(\<And>c. R c (snd (p c))) \<Longrightarrow> sat R p"
  by (simp add: sat_def)

lemma satD: "sat R p \<Longrightarrow> R c (snd (p c))"
  by (simp add: sat_def)

lemma sat_modify: "(\<And>c. R c (f c)) \<Longrightarrow> sat R (modify f)"
  by (simp add: sat_def)

lemma sat_skip: "reflp R \<Longrightarrow> sat R skip"
  by (simp add: sat_def reflpD)

lemma sat_throw: "reflp R \<Longrightarrow> sat R (throw e)"
  by (simp add: sat_def reflpD)

lemma sat_emit: "(\<And>c. R c (c\<lparr>emitted := emitted c @ [ev]\<rparr>)) \<Longrightarrow> sat R (emit ev)"
  by (simp add: sat_def)

lemma sat_andThen: "transp R \<Longrightarrow> sat R a \<Longrightarrow> sat R b \<Longrightarrow> sat R (andThen a b)"
  unfolding sat_def andThen_cases by (auto dest: transpD)

lemma sat_seqs: "reflp R \<Longrightarrow> transp R \<Longrightarrow> list_all (sat R) ps \<Longrightarrow> sat R (seqs ps)"
  by (induction ps) (auto intro: sat_skip sat_andThen)

lemma sat_whenever: "reflp R \<Longrightarrow> sat R a \<Longrightarrow> sat R (whenever cond a)"
  by (simp add: sat_def whenever_cases reflpD)

lemma sat_tryFinally: "transp R \<Longrightarrow> sat R a \<Longrightarrow> sat R b \<Longrightarrow> sat R (tryFinally a b)"
  unfolding sat_def by (auto dest: transpD)

lemma sat_tryCatch: "transp R \<Longrightarrow> sat R a \<Longrightarrow> (\<And>e. sat R (h e)) \<Longrightarrow> sat R (tryCatch a h)"
  unfolding sat_def tryCatch_def by (auto dest: transpD split: prod.splits option.splits) (metis snd_conv transpD)+

lemma sat_void: "(\<And>c. R c (snd (m c))) \<Longrightarrow> sat R (void m)"
  by (simp add: sat_def)

lemma sat_bind: "(\<And>x. sat R (p x)) \<Longrightarrow> sat R (\<lambda>c. p (g c) c)"
  by (simp add: sat_def)

lemma sat_if: "sat R a \<Longrightarrow> sat R b \<Longrightarrow> sat R (\<lambda>c. if cond c then a c else b c)"
  by (simp add: sat_def)

lemma sat_emit_dep: "(\<And>c. R c (c\<lparr>emitted := emitted c @ [f c]\<rparr>)) \<Longrightarrow> sat R (\<lambda>c. emit (f c) c)"
  by (simp add: sat_def)

lemmas sat_intros = sat_seqs sat_modify sat_emit sat_emit_dep sat_whenever sat_skip sat_throw
  sat_tryFinally sat_tryCatch sat_void sat_andThen

lemma snd_sendMID:
  "snd (sendMID mid payload expectAck c) =
     (if expectAck \<and> \<not> allowDuplicateCommands c \<and> hasPending mid c then touchTraffic c
      else if expectAck then
        (touchTraffic c)\<lparr>commandSeq := commandSeq c + 1,
           pendingCommands := map_set (commandSeq c + 1)
             \<lparr>pc_mid = mid, pc_timestamp = now c, pc_timeout = True\<rparr> (pendingCommands c),
           lastCommandId := Some (commandSeq c + 1),
           written := (if hasSocket c then written c @ [frame_text mid payload expectAck] else written c)\<rparr>
      else (touchTraffic c)\<lparr>written := (if hasSocket c then written c @ [frame_text mid payload expectAck] else written c)\<rparr>)"
  by (simp add: sendMID_def Let_def touchTraffic_def hasPending_def)

text \<open>Sequencing, unfolded one statement at a time.\<close>

lemma andThen_modify: "andThen (modify f) b c = b (f c)"
  by (simp add: andThen_def modify_def)

lemma andThen_emit:
  "andThen (emit ev) b c =
     (if listenerThrows c (emitted c @ [ev]) then (Some ListenerThrew, c\<lparr>emitted := emitted c @ [ev]\<rparr>)
      else b (c\<lparr>emitted := emitted c @ [ev]\<rparr>))"
  by (simp add: andThen_def emit_def Let_def)

lemma andThen_emit_dep:
  "andThen (\<lambda>c. emit (f c) c) b c =
     (if listenerThrows c (emitted c @ [f c]) then (Some ListenerThrew, c\<lparr>emitted := emitted c @ [f c]\<rparr>)
      else b (c\<lparr>emitted := emitted c @ [f c]\<rparr>))"
  by (simp add: andThen_def emit_def Let_def)

lemma andThen_assoc: "andThen (andThen a b) d = andThen a (andThen b d)"
  by (auto simp: andThen_def fun_eq_iff split: prod.splits option.splits)

lemma andThen_skip_left: "andThen skip b = b"
  by (auto simp: andThen_def skip_def fun_eq_iff)

lemma andThen_skip_right: "andThen a skip = a"
  by (auto simp: andThen_def skip_def fun_eq_iff split: prod.splits option.splits)

lemma andThen_whenever:
  "andThen (whenever cond a) b c = (if cond c then andThen a b c else b c)"
  by (simp add: andThen_def whenever_def)

lemma emit_eq:
  "emit ev c = (if listenerThrows c (emitted c @ [ev]) then Some ListenerThrew else None,
                c\<lparr>emitted := emitted c @ [ev]\<rparr>)"
  by (simp add: emit_def Let_def)

lemmas seq_simps = andThen_modify andThen_emit andThen_emit_dep andThen_assoc andThen_skip_left
  andThen_skip_right andThen_whenever whenever_cases

section \<open>Every step keeps the invariants\<close>

lemma reflp_stable [simp]: "reflp stable"
  by (auto simp: stable_def reflp_def)

lemma transp_stable [simp]: "transp stable"
  by (auto simp: stable_def transp_def)

lemma stableI:
  "allowDuplicateCommands c' = allowDuplicateCommands c \<Longrightarrow>
   listenerThrows c' = listenerThrows c \<Longrightarrow>
   (pending_ok c \<Longrightarrow> pending_ok c') \<Longrightarrow> (batch_ok c \<Longrightarrow> batch_ok c') \<Longrightarrow> stable c c'"
  by (simp add: stable_def)

text \<open>A change that leaves the command table, the sequence number and the batch alone.\<close>

lemma stable_frame:
  "allowDuplicateCommands c' = allowDuplicateCommands c \<Longrightarrow>
   listenerThrows c' = listenerThrows c \<Longrightarrow>
   pendingCommands c' = pendingCommands c \<Longrightarrow> commandSeq c' = commandSeq c \<Longrightarrow>
   batch c' = batch c \<Longrightarrow> stable c c'"
  by (simp add: stable_def pending_ok_def batch_ok_def)

lemma list_ex_mid: "list_ex (\<lambda>e. pc_mid (snd e) = mid) m \<longleftrightarrow> mid \<in> set (map (\<lambda>e. pc_mid (snd e)) m)"
  by (auto simp: list_ex_iff)

lemma map_set_fresh: "list_all (\<lambda>e. fst e \<le> n) m \<Longrightarrow> map_set (Suc n) v m = m @ [(Suc n, v)]"
  by (auto simp: map_set_def list_ex_iff list_all_iff)

lemma stable_sendMID: "stable c (snd (sendMID mid payload expectAck c))"
proof (rule stableI)
  assume "pending_ok c"
  then show "pending_ok (snd (sendMID mid payload expectAck c))"
    by (auto simp: snd_sendMID pending_ok_def touchTraffic_def map_set_fresh hasPending_def
        list_ex_mid list_all_iff)
qed (simp_all add: snd_sendMID touchTraffic_def batch_ok_def)

lemmas stable_intros = sat_intros stable_sendMID stable_frame

lemma stable_subscribe: "sat stable subscribeTighteningResults" "sat stable subscribeAlarms"
  "sat stable unsubscribeTighteningResults" "sat stable unsubscribeAlarms" "sat stable acknowledgeAlarm"
  by (auto intro!: stable_intros simp: subscribeTighteningResults_def subscribeAlarms_def
      unsubscribeTighteningResults_def unsubscribeAlarms_def acknowledgeAlarm_def)

lemma cancel_timer_mids:
  "(\<lambda>e. pc_mid (snd e)) \<circ>
     (\<lambda>x. if fst x = k then (fst x, (snd x)\<lparr>pc_timeout := False\<rparr>) else x) =
   (\<lambda>e. pc_mid (snd e))"
  by (auto simp: fun_eq_iff)

lemma cancel_timer_keys:
  "list_all (\<lambda>e. fst e \<le> n)
     (map (\<lambda>x. if fst x = k then (fst x, (snd x)\<lparr>pc_timeout := False\<rparr>) else x) m) =
   list_all (\<lambda>e. fst e \<le> n) m"
  by (induction m) auto

lemma stable_cancel_timer:
  "stable c (c\<lparr>pendingCommands :=
     map (\<lambda>x. if fst x = k then (fst x, (snd x)\<lparr>pc_timeout := False\<rparr>) else x)
       (pendingCommands c)\<rparr>)"
  by (intro stableI) (simp_all add: pending_ok_def batch_ok_def cancel_timer_keys cancel_timer_mids)

lemma stable_abortEntries: "sat stable (abortEntries es)"
  by (induction es) (auto intro!: stable_intros stable_cancel_timer)

lemma stable_map_delete:
  "stable c (c\<lparr>pendingCommands := map_delete k (pendingCommands c)\<rparr>)"
  by (intro stableI) (auto simp: pending_ok_def batch_ok_def map_delete_def list_all_iff distinct_map_filter)

lemma stable_clearPendingCommands: "sat stable clearPendingCommands"
proof (rule satI)
  fix c :: client
  have "sat stable (seqs [abortEntries (pendingCommands c), modify (\<lambda>c. c\<lparr>pendingCommands := []\<rparr>)])"
    by (auto intro!: stable_intros stable_abortEntries stableI simp: pending_ok_def batch_ok_def)
  then show "stable c (snd (clearPendingCommands c))"
    by (simp add: clearPendingCommands_def satD)
qed

lemma stable_resolvePendingCommand: "sat stable (resolvePendingCommand mid success data)"
proof (rule satI)
  fix c
  show "stable c (snd (resolvePendingCommand mid success data c))"
  proof (cases "find (\<lambda>e. Num (pc_mid (snd e)) = mid) (pendingCommands c)")
    case None
    then show ?thesis by (simp add: resolvePendingCommand_def reflpD)
  next
    case (Some e)
    have "sat stable (seqs [modify (\<lambda>c. c\<lparr>pendingCommands := map_delete (fst e) (pendingCommands c)\<rparr>),
                emit (if success then EvCommandSuccess mid (fst e) data
                      else EvCommandFailed mid (fst e) data)])"
      by (auto intro!: stable_intros stable_map_delete)
    with Some show ?thesis by (simp add: resolvePendingCommand_def satD)
  qed
qed

lemma stable_commandTimeoutFires: "sat stable (commandTimeoutFires cmdId)"
proof (rule satI)
  fix c
  show "stable c (snd (commandTimeoutFires cmdId c))"
  proof (cases "find (\<lambda>e. fst e = cmdId \<and> pc_timeout (snd e)) (pendingCommands c)")
    case None
    then show ?thesis by (simp add: commandTimeoutFires_def reflpD)
  next
    case (Some e)
    have "sat stable (seqs [modify (\<lambda>c. c\<lparr>pendingCommands := map_delete cmdId (pendingCommands c)\<rparr>),
                emit (EvCommandTimeout (pc_mid (snd e)) cmdId)])"
      by (auto intro!: stable_intros stable_map_delete)
    with Some show ?thesis by (simp add: commandTimeoutFires_def satD)
  qed
qed

lemma stable_refl: "stable c c"
  by (simp add: reflpD)

lemma stable_timers:
  "stable c (clearWatchdog c)" "stable c (startWatchdog c)" "stable c (stopReconnect c)"
  "stable c (connect c)" "stable c (reconnectTimerFires c)" "stable c (touchTraffic c)"
  by (auto simp: clearWatchdog_def startWatchdog_def stopReconnect_def connect_def
      reconnectTimerFires_def touchTraffic_def Let_def intro!: stable_frame stable_refl)

lemma stable_batch:
  "(batch_ok c \<Longrightarrow> batch_ok (c\<lparr>batch := b\<rparr>)) \<Longrightarrow> stable c (c\<lparr>batch := b\<rparr>)"
  by (simp add: stable_def pending_ok_def)

lemma stable_clock: "stable c (if now c \<le> t then c\<lparr>now := t\<rparr> else c)"
  by (auto intro!: stable_frame stable_refl)

lemmas stable_rules = stable_intros stable_timers

lemma stable_startTighteningCycle: "sat stable startTighteningCycle"
  by (auto intro!: stable_rules simp: startTighteningCycle_def)

lemma stable_finishCycle: "sat stable (finishCycle results overallOk)"
  unfolding finishCycle_def
  by (auto intro!: stable_rules stableI simp: pending_ok_def batch_ok_def)

lemma stable_completeCycle: "sat stable completeCycle"
proof -
  have "sat stable (\<lambda>c. let results = map snd (pendingSpindles (tightening c));
               overallOk = list_all ok results
           in finishCycle results overallOk c)"
    unfolding Let_def by (rule satI) (rule satD [OF stable_finishCycle])
  then show ?thesis
    unfolding completeCycle_def by (auto intro!: stable_rules)
qed

lemma stable_handleTighteningResult: "sat stable (handleTighteningResult d)"
  unfolding handleTighteningResult_def
  by (auto intro!: stable_rules stable_completeCycle)

lemma stable_watchdogFires: "sat stable watchdogFires"
proof -
  have "sat stable (seqs
            [modify (\<lambda>c. c\<lparr>tightening := (tightening c)
               \<lparr>inProgress := False, pendingSpindles := [], watchdog := Some False\<rparr>\<rparr>),
             (\<lambda>c. emit (EvTighteningIncomplete (spindleCount (tool c))
                         (length rs) rs) c)])" for rs :: "result list"
    by (auto intro!: stable_rules)
  then have "sat stable (\<lambda>c. let partialResults = map snd (pendingSpindles (tightening c))
          in seqs
            [modify (\<lambda>c. c\<lparr>tightening := (tightening c)
               \<lparr>inProgress := False, pendingSpindles := [], watchdog := Some False\<rparr>\<rparr>),
             (\<lambda>c. emit (EvTighteningIncomplete (spindleCount (tool c))
                         (length partialResults) partialResults) c)] c)"
    unfolding Let_def by (intro satI) (rule satD)
  then show ?thesis
    unfolding watchdogFires_def by (auto intro!: stable_rules)
qed

lemma stable_handleCase: "sat stable (handleCase d)"
  by (cases d)
    (auto intro!: stable_rules stable_subscribe stable_resolvePendingCommand
      stable_startTighteningCycle stable_handleTighteningResult stable_batch
      simp: batch_ok_def)

lemma snd_emitStateChanged:
  "snd (emitStateChanged c) =
     (case getState c of None \<Rightarrow> c | Some s \<Rightarrow> c\<lparr>emitted := emitted c @ [EvStateChanged s]\<rparr>)"
  by (simp add: emitStateChanged_def split: option.splits)

lemma stable_emitStateChanged: "sat stable emitStateChanged"
  by (rule satI) (auto simp: snd_emitStateChanged intro!: stable_frame stable_refl split: option.splits)

lemma stable_handleMID: "sat stable (handleMID mid d)"
  unfolding handleMID_def
  by (auto intro!: stable_rules stable_handleCase stable_emitStateChanged)

lemma stable_processFrame: "sat stable (processFrame mid payload)"
  unfolding processFrame_def
  by (intro sat_tryCatch satI satD [OF stable_handleMID] transp_stable)
    (auto intro!: stable_rules)

lemma stable_scheduleReconnect: "sat stable scheduleReconnect"
  unfolding scheduleReconnect_def by (auto intro!: stable_rules)

lemma stable_onConnect: "sat stable onConnect"
  unfolding onConnect_def by (auto intro!: stable_rules)

lemma stable_onSocketError: "sat stable (onSocketError byTimer)"
  unfolding onSocketError_def by (auto intro!: stable_rules stable_scheduleReconnect)

lemma stable_onClose: "sat stable onClose"
proof -
  have "sat stable (seqs
        [modify (\<lambda>c. c\<lparr>heartbeatTimer := False\<rparr>),
         modify clearWatchdog,
         clearPendingCommands,
         modify (\<lambda>c. c\<lparr>connection := (connection c)
           \<lparr>connected := False, linkLayerReady := False\<rparr>\<rparr>),
         modify (\<lambda>c. c\<lparr>buffer := []\<rparr>),
         emit EvDisconnected,
         whenever (\<lambda>c. autoReconnect c \<and> w) scheduleReconnect])" for w
    by (auto intro!: stable_rules stable_clearPendingCommands stable_scheduleReconnect)
  then show ?thesis
    unfolding onClose_def Let_def by (intro satI) (rule satD)
qed

lemma stable_disconnect: "sat stable disconnect"
  unfolding disconnect_def by (auto intro!: stable_rules)

lemma stable_heartbeatTick: "sat stable heartbeatTick"
  by (rule satI) (auto simp: heartbeatTick_def Let_def intro!: stable_refl stable_sendMID)

lemma stable_setSpindleCount: "sat stable (setSpindleCount n)"
  unfolding setSpindleCount_def by (auto intro!: stable_rules)

lemma stable_commands:
  "stable c (snd (startTightening c))" "stable c (snd (downloadVIN v c))"
  "stable c (snd (selectJob n c))" "stable c (snd (selectParameterSet n c))"
  "stable c (snd (enableTool c))" "stable c (snd (disableTool c))"
  "stable c (snd (decrementBatch c))"
  by (auto simp: startTightening_def downloadVIN_def selectJob_def selectParameterSet_def
      enableTool_def disableTool_def decrementBatch_def Let_def
      intro!: stable_refl stable_sendMID split: option.splits)

lemma stable_resetBatch: "stable c (snd (resetBatch c))"
proof -
  have "stable c (c\<lparr>batch := (batch c)\<lparr>pendingReset := True\<rparr>\<rparr>)"
    by (rule stableI) (simp_all add: pending_ok_def batch_ok_def)
  then show ?thesis
    unfolding resetBatch_def using stable_sendMID transp_stable by (blast dest: transpD)
qed

lemma stable_exec: "sat stable (exec a)"
  by (cases a)
    (auto intro!: stable_rules stable_subscribe stable_commands stable_resetBatch
      stable_disconnect stable_setSpindleCount stable_onConnect stable_onClose
      stable_onSocketError stable_heartbeatTick stable_commandTimeoutFires
      stable_watchdogFires stable_clock)

lemma step_stable: "step c c' \<Longrightarrow> stable c c'"
  by (induction rule: step.induct)
    (auto intro!: satD [OF stable_exec] satD [OF stable_processFrame] stable_timers stable_frame)

section \<open>Reachable states\<close>

lemma reachable_invariants:
  assumes "reachable c0 c"
  shows "stable c0 c"
  using assms
proof (induction rule: reachable.induct)
  case reachable_init
  show ?case by (rule stable_refl)
next
  case (reachable_step c c')
  then show ?case using step_stable transp_stable by (blast dest: transpD)
qed

lemma reachable_trans:
  assumes "reachable c c'" and "reachable c0 c"
  shows "reachable c0 c'"
  using assms by (induction rule: reachable.induct) (auto intro: reachable.intros)

lemma reachable_emit_buffer:
  assumes "reachable c0 c" and "step c (snd (emit ev c))"
  shows "reachable c0 ((snd (emit ev c))\<lparr>buffer := b\<rparr>)"
  using assms by (blast intro: reachable_step step_buffer)

lemma reachable_frame:
  assumes "reachable c0 c"
  shows "reachable c0 (snd (processFrame mid payload (c\<lparr>buffer := b\<rparr>)))"
  using assms by (blast intro: reachable_step step_buffer step_frame)

lemma onData_loop_reachable:
  "onData_loop n c = Some (r, c') \<Longrightarrow> reachable c0 c \<Longrightarrow> reachable c0 c'"
proof (induction n arbitrary: c)
  case 0
  then show ?case by simp
next
  case (Suc n)
  consider (short) "length (buffer c) < 4"
    | (invalid) "\<not> length (buffer c) < 4" "invalidLength c"
    | (range) "\<not> length (buffer c) < 4" "\<not> invalidLength c" "lengthOutOfRange c"
    | (wait) "\<not> length (buffer c) < 4" "\<not> invalidLength c" "\<not> lengthOutOfRange c"
        "js_lt (Num (int (length (buffer c)))) (frameLength c)"
    | (frame) "\<not> length (buffer c) < 4" "\<not> invalidLength c" "\<not> lengthOutOfRange c"
        "\<not> js_lt (Num (int (length (buffer c)))) (frameLength c)"
    by blast
  then show ?case
  proof cases
    case short
    with Suc.prems show ?thesis by simp
  next
    case invalid
    let ?e = "emit (EvFrameErrorInvalidLength (slice 0 20 (buffer c))) c"
    have r1: "reachable c0 (snd ?e)"
      using Suc.prems(2) by (blast intro: reachable_step step_emit_invalid_length)
    have r2: "reachable c0 ((snd ?e)\<lparr>buffer := slice_from 1 (buffer (snd ?e))\<rparr>)"
      using r1 by (blast intro: reachable_step step_buffer)
    show ?thesis
    proof (cases "fst ?e")
      case None
      with invalid Suc.prems(1)
      have "onData_loop n ((snd ?e)\<lparr>buffer := slice_from 1 (buffer (snd ?e))\<rparr>) = Some (r, c')"
        by (simp split: prod.splits del: snd_emit)
      then show ?thesis using r2 by (rule Suc.IH)
    next
      case (Some e)
      with invalid Suc.prems(1) have "c' = snd ?e"
        by (auto split: prod.splits simp del: snd_emit)
      then show ?thesis using r1 by simp
    qed
  next
    case range
    let ?e = "emit (EvFrameErrorLengthOutOfRange (frameLength c)) c"
    have r1: "reachable c0 (snd ?e)"
      using Suc.prems(2) by (blast intro: reachable_step step_emit_out_of_range)
    have r2: "reachable c0 ((snd ?e)\<lparr>buffer := slice_from 1 (buffer (snd ?e))\<rparr>)"
      using r1 by (blast intro: reachable_step step_buffer)
    show ?thesis
    proof (cases "fst ?e")
      case None
      with range Suc.prems(1)
      have "onData_loop n ((snd ?e)\<lparr>buffer := slice_from 1 (buffer (snd ?e))\<rparr>) = Some (r, c')"
        by (simp split: prod.splits del: snd_emit)
      then show ?thesis using r2 by (rule Suc.IH)
    next
      case (Some e)
      with range Suc.prems(1) have "c' = snd ?e"
        by (auto split: prod.splits simp del: snd_emit)
      then show ?thesis using r1 by simp
    qed
  next
    case wait
    with Suc.prems show ?thesis by simp
  next
    case frame
    let ?frame = "slice_num (Num 4) (frameLength c) (buffer c)"
    let ?p = "processFrame (parseInt (slice 0 4 ?frame)) (slice_from 16 ?frame)
                (c\<lparr>buffer := slice_from_num (frameLength c) (buffer c)\<rparr>)"
    have r1: "reachable c0 (snd ?p)"
      using Suc.prems(2) by (rule reachable_frame)
    show ?thesis
    proof (cases "fst ?p")
      case None
      with frame Suc.prems(1) have "onData_loop n (snd ?p) = Some (r, c')"
        by (simp add: Let_def split: prod.splits)
      then show ?thesis using r1 by (rule Suc.IH)
    next
      case (Some e)
      with frame Suc.prems(1) have "c' = snd ?p"
        by (auto simp add: Let_def split: prod.splits)
      then show ?thesis using r1 by simp
    qed
  qed
qed

lemma onData_reachable:
  "onData n data c = Some (r, c') \<Longrightarrow> reachable c0 c \<Longrightarrow> reachable c0 c'"
  unfolding onData_def
  by (erule onData_loop_reachable) (blast intro: reachable_step step_buffer step_touch)


text \<open>The definitions that a run on concrete input unfolds.\<close>

lemmas run_eval =
  whenever_def onConnect_def andThen_def modify_def emit_def void_def skip_def sendMID_def
  touchTraffic_def hasPending_def frame_text_def padStart_def toString_def digits_eval
  connect_def defaultClient_def createClient_def onData_def invalidLength_def frameLength_def
  lengthOutOfRange_def slice_def parseInt_def is_space_def is_digit_def digits_value_def
  digit_val_def slice_num_def js_index_def slice_from_num_def slice_from_def processFrame_def
  tryCatch_def parseMID_def Number_def trim_def handleMID_def emitStateChanged_def getState_def
  state_value_def map_set_def Let_def

lemma reachable_connectedClient: "reachable defaultClient connectedClient"
  unfolding connectedClient_def
  by (intro reachable_step [OF _ step_action] reachable_init)

lemma reachable_afterBatchFrame: "reachable defaultClient afterBatchFrame"
proof -
  have "onData 2 batchFrame connectedClient \<noteq> None"
    by code_simp
  then obtain r where r: "onData 2 batchFrame connectedClient = Some (fst r, snd r)"
    by auto
  then have "afterBatchFrame = snd r"
    by (simp add: afterBatchFrame_def)
  with onData_reachable [OF r reachable_connectedClient] show ?thesis
    by simp
qed

lemma reachable_afterBatchFrame1: "reachable defaultClient afterBatchFrame1"
proof -
  have "onData 2 batchFrame1 connectedClient \<noteq> None"
    by code_simp
  then obtain r where r: "onData 2 batchFrame1 connectedClient = Some (fst r, snd r)"
    by auto
  then have "afterBatchFrame1 = snd r"
    by (simp add: afterBatchFrame1_def)
  with onData_reachable [OF r reachable_connectedClient] show ?thesis
    by simp
qed

section \<open>The command table\<close>

lemma pending_ok_createClient:
  "pending_ok (createClient auto validate count duplicates listeners tj t)"
  by (simp add: pending_ok_def createClient_def)

lemma batch_ok_createClient:
  "batch_ok (createClient auto validate count duplicates listeners tj t)"
  by (simp add: batch_ok_def createClient_def)

text \<open>
  Claim C7. With \<^verbatim>\<open>allowDuplicateCommands\<close> off, every reachable command table holds at
  most one entry per MID; a command whose MID is pending fails with a command error and
  changes nothing but the traffic stamp (nothing is written, nothing is registered);
  and of two calls for the same MID on an open socket, the first registers the command
  and writes its frame, the second fails, so the socket is written once.
\<close>

theorem one_pending_command_per_mid:
  assumes "reachable (createClient auto validate count False listeners tj t) c"
  shows "distinct (map (\<lambda>e. pc_mid (snd e)) (pendingCommands c)) \<and>
         (hasPending mid c \<longrightarrow>
            sendMID mid payload True c = (Inl (CommandError mid), c\<lparr>lastTrafficTs := now c\<rparr>)) \<and>
         (\<not> hasPending mid c \<and> hasSocket c \<longrightarrow>
            (let r1 = sendMID mid payload True c;
                 r2 = sendMID mid payload' True (snd r1)
             in fst r1 = Inr (Some (commandSeq c + 1)) \<and>
                fst r2 = Inl (CommandError mid) \<and>
                written (snd r2) = written c @ [frame_text mid payload True]))"
proof -
  from assms have st: "stable (createClient auto validate count False listeners tj t) c"
    by (rule reachable_invariants)
  then have dup: "\<not> allowDuplicateCommands c"
    by (simp add: stable_def createClient_def)
  from st have ok: "pending_ok c"
    by (simp add: stable_def pending_ok_createClient)
  with dup have keys: "list_all (\<lambda>e. fst e \<le> commandSeq c) (pendingCommands c)"
    and dist: "distinct (map (\<lambda>e. pc_mid (snd e)) (pendingCommands c))"
    by (simp_all add: pending_ok_def)
  have fail: "sendMID mid payload True c = (Inl (CommandError mid), c\<lparr>lastTrafficTs := now c\<rparr>)"
    if "hasPending mid c"
    using that dup by (simp add: sendMID_def touchTraffic_def hasPending_def)
  have twice: "fst (sendMID mid payload True c) = Inr (Some (commandSeq c + 1)) \<and>
      fst (sendMID mid payload' True (snd (sendMID mid payload True c))) = Inl (CommandError mid) \<and>
      written (snd (sendMID mid payload' True (snd (sendMID mid payload True c)))) =
        written c @ [frame_text mid payload True]"
    if "\<not> hasPending mid c" "hasSocket c"
    using that dup keys
    by (simp add: sendMID_def touchTraffic_def hasPending_def map_set_fresh Let_def)
  from dist fail twice show ?thesis
    by (simp add: Let_def)
qed

theorem one_pending_command_per_mid_witness:
  "reachable defaultClient connectedClient \<and>
   \<not> hasPending 42 connectedClient \<and> hasSocket connectedClient \<and>
   distinct (map (\<lambda>e. pc_mid (snd e)) (pendingCommands connectedClient)) \<and>
   fst (sendMID 42 [] True connectedClient) = Inr (Some 1) \<and>
   fst (sendMID 42 [] True (snd (sendMID 42 [] True connectedClient))) = Inl (CommandError 42) \<and>
   written (snd (sendMID 42 [] True (snd (sendMID 42 [] True connectedClient)))) =
     written connectedClient @ [''0020004200100101    '']"
proof -
  have pre: "\<not> hasPending 42 connectedClient \<and> hasSocket connectedClient"
    by code_simp
  have frame: "frame_text 42 [] True = ''0020004200100101    ''"
    by code_simp
  have seq: "commandSeq connectedClient = 0"
    by code_simp
  from one_pending_command_per_mid [of True True None "\<lambda>evs. False" "\<lambda>armed. None" 0
      connectedClient 42 "[]" "[]", folded defaultClient_def, OF reachable_connectedClient]
    pre frame seq reachable_connectedClient
  show ?thesis by (simp add: Let_def)
qed

section \<open>The batch invariants\<close>

lemma reachable_exec: "reachable c0 c \<Longrightarrow> reachable c0 (snd (exec a c))"
  by (blast intro: reachable_step step_action)

lemma reachable_processFrame: "reachable c0 c \<Longrightarrow> reachable c0 (snd (processFrame mid payload c))"
  by (blast intro: reachable_step step_frame)

lemma batch_finishCycle_idle:
  "\<not> (batch_active (batch c) \<and> \<not> batch_complete (batch c)) \<Longrightarrow>
   batch (snd (finishCycle rs b c)) = batch c"
  by (auto simp: finishCycle_def seq_simps)

lemma batch_finishCycle_active:
  assumes "batch_active (batch c)" and "\<not> batch_complete (batch c)"
  shows "batch (snd (finishCycle rs b c)) =
     (let k = js_inc (batch_counter (batch c));
          reached = js_ge k (to_number (batch_size (batch c)))
      in if listenerThrows c (emitted c @
              [EvBatchProgress k (batch_size (batch c)) (js_sub (to_number (batch_size (batch c))) k)])
         then (batch c)\<lparr>batch_counter := k\<rparr>
         else (batch c)\<lparr>batch_counter := k, batch_complete := reached, batch_active := \<not> reached\<rparr>)"
  using assms by (simp add: finishCycle_def seq_simps Let_def)

text \<open>
  Claim C9, amended. In every reachable state a complete batch is not active, and cycle
  completion, the MID 0031 projection and the MID 0021 acknowledgement preserve this.
  Cycle completion leaves the batch as it is unless the batch is active and not complete;
  then it increments the counter and, when the counter has reached the size, marks the
  batch complete and not active (the handler ends before that if a listener of
  \<^verbatim>\<open>batchProgress\<close> throws). The MID 0031 projection stores the size and the counter that
  the controller reports, and the MID 0021 acknowledgement the counter. The counter is
  within the size after a completion that increments it exactly when the incremented
  counter is, and after a MID 0031 exactly when the reported values are.
\<close>

theorem batch_invariants_amended:
  "(reachable (createClient auto validate count duplicates listeners tj t) c \<longrightarrow>
      \<not> (batch_complete (batch c) \<and> batch_active (batch c))) \<and>
   (batch_ok c0 \<longrightarrow> batch_ok (snd (finishCycle rs b c0)) \<and>
      batch_ok (snd (handleCase (P_BatchDecrement k) c0))) \<and>
   batch_ok (snd (handleCase (P_Batch bid bsize bcounter) c0)) \<and>
   batch (snd (finishCycle rs b c0)) =
     (if batch_active (batch c0) \<and> \<not> batch_complete (batch c0) then
        (let n = js_inc (batch_counter (batch c0));
             reached = js_ge n (to_number (batch_size (batch c0)))
         in if listenerThrows c0 (emitted c0 @
                 [EvBatchProgress n (batch_size (batch c0)) (js_sub (to_number (batch_size (batch c0))) n)])
            then (batch c0)\<lparr>batch_counter := n\<rparr>
            else (batch c0)\<lparr>batch_counter := n, batch_complete := reached, batch_active := \<not> reached\<rparr>)
      else batch c0) \<and>
   (batch_active (batch c0) \<and> \<not> batch_complete (batch c0) \<and> batch_size (batch c0) = Some m \<longrightarrow>
      counter_within_size (snd (finishCycle rs b c0)) = js_ge m (js_inc (batch_counter (batch c0)))) \<and>
   batch (snd (handleCase (P_Batch bid bsize bcounter) c0)) =
     \<lparr>batchId = Some bid, batch_size = Some bsize, batch_counter = bcounter,
      batch_active = True, batch_complete = False, batch_locked = True,
      pendingReset = False\<rparr> \<and>
   counter_within_size (snd (handleCase (P_Batch bid bsize bcounter) c0)) = js_ge bsize bcounter \<and>
   batch (snd (handleCase (P_BatchDecrement k) c0)) = (batch c0)\<lparr>batch_counter := k\<rparr>"
proof -
  have inv: "\<not> (batch_complete (batch c) \<and> batch_active (batch c))"
    if "reachable (createClient auto validate count duplicates listeners tj t) c"
    using reachable_invariants [OF that] batch_ok_createClient [of auto validate count duplicates listeners tj t]
    by (simp add: stable_def batch_ok_def)
  have fin: "batch (snd (finishCycle rs b c0)) =
     (if batch_active (batch c0) \<and> \<not> batch_complete (batch c0) then
        (let n = js_inc (batch_counter (batch c0));
             reached = js_ge n (to_number (batch_size (batch c0)))
         in if listenerThrows c0 (emitted c0 @
                 [EvBatchProgress n (batch_size (batch c0)) (js_sub (to_number (batch_size (batch c0))) n)])
            then (batch c0)\<lparr>batch_counter := n\<rparr>
            else (batch c0)\<lparr>batch_counter := n, batch_complete := reached, batch_active := \<not> reached\<rparr>)
      else batch c0)"
    using batch_finishCycle_idle [of c0 rs b] batch_finishCycle_active [of c0 rs b]
    by (simp only: split: if_splits) auto
  have ok_fin: "batch_ok (snd (finishCycle rs b c0))" if "batch_ok c0"
    using satD [OF stable_finishCycle, of c0 rs b] that by (simp add: stable_def)
  have b31: "batch (snd (handleCase (P_Batch bid bsize bcounter) c0)) =
     \<lparr>batchId = Some bid, batch_size = Some bsize, batch_counter = bcounter,
      batch_active = True, batch_complete = False, batch_locked = True,
      pendingReset = False\<rparr>"
    by (simp add: andThen_cases fst_emit)
  have b21: "batch (snd (handleCase (P_BatchDecrement k) c0)) = (batch c0)\<lparr>batch_counter := k\<rparr>"
    by simp
  have within: "counter_within_size (snd (finishCycle rs b c0)) = js_ge m (js_inc (batch_counter (batch c0)))"
    if "batch_active (batch c0)" "\<not> batch_complete (batch c0)" "batch_size (batch c0) = Some m"
    using that by (simp add: counter_within_size_def fin Let_def)
  from inv fin ok_fin b31 b21 within show ?thesis
    by (simp add: batch_ok_def counter_within_size_def)
qed

text \<open>On the batch of size 5 that was reported with the counter at 5, a completion
  increments the counter to 6 and marks the batch complete and not active.\<close>

theorem batch_invariants_amended_witness:
  "reachable defaultClient afterBatchFrame1 \<and>
   \<not> batch_complete (batch afterBatchFrame1) \<and>
   batch_active (batch fullBatchClient) \<and> \<not> batch_complete (batch fullBatchClient) \<and>
   batch_size (batch fullBatchClient) = Some (Num 5) \<and>
   batch_counter (batch fullBatchClient) = Num 5 \<and>
   batch (snd (finishCycle [] True fullBatchClient)) =
     (batch fullBatchClient)\<lparr>batch_counter := Num 6, batch_complete := True, batch_active := False\<rparr> \<and>
   \<not> counter_within_size (snd (finishCycle [] True fullBatchClient)) \<and>
   counter_within_size (snd (handleCase (P_Batch (Num 1) (Num 5) (Num 5)) fullBatchClient))"
proof -
  have pre: "\<not> batch_complete (batch afterBatchFrame1) \<and>
      batch_active (batch fullBatchClient) \<and> \<not> batch_complete (batch fullBatchClient) \<and>
      batch_size (batch fullBatchClient) = Some (Num 5) \<and>
      batch_counter (batch fullBatchClient) = Num 5 \<and>
      js_inc (Num 5) = Num 6 \<and> js_ge (Num 6) (Num 5) \<and> js_ge (Num 5) (Num 5) \<and>
      \<not> js_ge (Num 5) (Num 6) \<and>
      \<not> listenerThrows fullBatchClient (emitted fullBatchClient @
          [EvBatchProgress (Num 6) (Some (Num 5)) (js_sub (Num 5) (Num 6))])"
    by code_simp
  from batch_invariants_amended [of True True None False "\<lambda>evs. False" "\<lambda>armed. None" 0
      afterBatchFrame1 fullBatchClient "[]" True "Num 5" "Num 1" "Num 5" "Num 5" "Num 5",
      folded defaultClient_def]
    pre reachable_afterBatchFrame1
  show ?thesis by (simp add: batch_ok_def)
qed

text \<open>
  Claim C9 as stated fails. A MID 0031 frame that reports the counter 7 for a batch of
  size 5 leads to a state whose size is known and whose counter exceeds it; a MID 0021
  that reports the counter 9 takes a batch within its size out of it; so does a cycle
  completion on a batch whose counter is at its size; and with a listener of
  \<^verbatim>\<open>batchProgress\<close> that throws, the counter reaches the size and the batch is not marked
  complete.
\<close>

theorem batch_counter_exceeds_size_counterexample:
  "reachable defaultClient afterBatchFrame \<and>
   batch_size (batch afterBatchFrame) = Some (Num 5) \<and>
   batch_counter (batch afterBatchFrame) = Num 7 \<and>
   \<not> counter_within_size afterBatchFrame \<and>
   reachable defaultClient afterDecrement \<and>
   counter_within_size afterBatchFrame1 \<and>
   batch_counter (batch afterDecrement) = Num 9 \<and>
   \<not> counter_within_size afterDecrement \<and>
   reachable defaultClient afterFullBatchCycle \<and>
   counter_within_size fullBatchClient \<and>
   batch_counter (batch afterFullBatchCycle) = Num 6 \<and>
   \<not> counter_within_size afterFullBatchCycle \<and>
   reachable progressInitial afterThrownProgress \<and>
   batch_size (batch afterThrownProgress) = Some (Num 5) \<and>
   batch_counter (batch afterThrownProgress) = Num 5 \<and>
   \<not> batch_complete (batch afterThrownProgress) \<and>
   batch_active (batch afterThrownProgress)"
proof -
  have "batch_size (batch afterBatchFrame) = Some (Num 5) \<and>
      batch_counter (batch afterBatchFrame) = Num 7 \<and> \<not> counter_within_size afterBatchFrame"
    by code_simp
  moreover have "counter_within_size afterBatchFrame1 \<and>
      batch_counter (batch afterDecrement) = Num 9 \<and> \<not> counter_within_size afterDecrement"
    by code_simp
  moreover have "counter_within_size fullBatchClient \<and>
      batch_counter (batch afterFullBatchCycle) = Num 6 \<and> \<not> counter_within_size afterFullBatchCycle"
    by code_simp
  moreover have "batch_size (batch afterThrownProgress) = Some (Num 5) \<and>
      batch_counter (batch afterThrownProgress) = Num 5 \<and>
      \<not> batch_complete (batch afterThrownProgress) \<and> batch_active (batch afterThrownProgress)"
    by code_simp
  moreover have "reachable defaultClient afterDecrement"
    unfolding afterDecrement_def by (intro reachable_processFrame reachable_afterBatchFrame1)
  moreover have "reachable defaultClient afterFullBatchCycle"
    unfolding afterFullBatchCycle_def fullBatchClient_def
    by (intro reachable_processFrame reachable_connectedClient)
  moreover have "reachable progressInitial afterThrownProgress"
    unfolding afterThrownProgress_def lastOfBatchClient_def progressClient_def
    by (intro reachable_processFrame reachable_exec reachable_init)
  ultimately show ?thesis
    using reachable_afterBatchFrame by simp
qed

section \<open>Commands other than \<^verbatim>\<open>startTightening\<close>\<close>

text \<open>
  Claim C2 does not hold of the code: only \<^verbatim>\<open>startTightening\<close> calls \<^verbatim>\<open>_check\<close>. On a client
  whose TCP connection is up and whose link is not ready, \<^verbatim>\<open>_check\<close> would refuse any
  command with \<open>LINK_NOT_READY\<close>, but \<^verbatim>\<open>enableTool()\<close> registers the command, writes its
  frame and returns the command id. On a client that never connected it registers the
  command and fails with the \<^verbatim>\<open>TypeError\<close> of the \<open>null\<close> socket, not with
  \<open>NOT_CONNECTED\<close>.
\<close>

theorem enableTool_skips_interlocks:
  "connected (connection connectedClient) \<and>
   \<not> linkLayerReady (connection connectedClient) \<and>
   check ''enableTool'' connectedClient = Some (InterlockError LINK_NOT_READY) \<and>
   fst (enableTool connectedClient) = Inr (Some 1) \<and>
   written (snd (enableTool connectedClient)) =
     written connectedClient @ [''0020004200100101    ''] \<and>
   check ''enableTool'' defaultClient = Some (InterlockError NOT_CONNECTED) \<and>
   fst (enableTool defaultClient) = Inl TypeError \<and>
   map (\<lambda>e. pc_mid (snd e)) (pendingCommands (snd (enableTool defaultClient))) = [42]"
  by code_simp

section \<open>The spindle number of a Revision 1 result\<close>

text \<open>
  Claim C5 does not hold of the code: at revision 1 \<^verbatim>\<open>_parse0061\<close> sets the spindle to the
  literal 1 whatever the payload, and \<^verbatim>\<open>_onData\<close> drops the header. The frame
  \<open>resultFrame\<close> names spindle 2 in its header; the result the client announces and
  stores has spindle 1.
\<close>

theorem rev1_spindle_is_literal_one:
  "(\<forall>p. spindle (parse0061 1 p) = Num 1) \<and>
   revision (protocol connectedClient) = 1 \<and>
   header_spindle (slice_from 4 resultFrame) = Num 2 \<and>
   map spindle (spindleResults (emitted afterResultFrame)) = [Num 1]"
proof -
  have "spindle (parse0061 1 p) = Num 1" for p
    by (simp add: parse0061_def Let_def)
  moreover have "revision (protocol connectedClient) = 1 \<and>
      header_spindle (slice_from 4 resultFrame) = Num 2 \<and>
      map spindle (spindleResults (emitted afterResultFrame)) = [Num 1]"
    by code_simp
  ultimately show ?thesis by simp
qed

section \<open>The mandatory acknowledgement\<close>

lemma reflp_same_io: "reflp (\<lambda>c c'. written c' = written c \<and> hasSocket c' = hasSocket c)"
  by (simp add: reflp_def)

lemma transp_same_io: "transp (\<lambda>c c'. written c' = written c \<and> hasSocket c' = hasSocket c)"
  by (simp add: transp_def)

lemma clearWatchdog_eq: "clearWatchdog c = c\<lparr>tightening := (tightening c)\<lparr>watchdog := None\<rparr>\<rparr>"
proof (cases "watchdog (tightening c)")
  case None
  then have "(tightening c)\<lparr>watchdog := None\<rparr> = tightening c"
    by (cases "tightening c") simp
  with None show ?thesis by (simp add: clearWatchdog_def)
next
  case (Some a)
  then show ?thesis by (simp add: clearWatchdog_def)
qed

lemmas io_intros = sat_intros reflp_same_io transp_same_io

lemma io_finishCycle:
  "sat (\<lambda>c c'. written c' = written c \<and> hasSocket c' = hasSocket c) (finishCycle rs b)"
  unfolding finishCycle_def by (auto intro!: io_intros)

lemma io_completeCycle:
  "sat (\<lambda>c c'. written c' = written c \<and> hasSocket c' = hasSocket c) completeCycle"
proof -
  have "sat (\<lambda>c c'. written c' = written c \<and> hasSocket c' = hasSocket c)
     (\<lambda>c. let results = map snd (pendingSpindles (tightening c));
               overallOk = list_all ok results
           in finishCycle results overallOk c)"
    unfolding Let_def by (rule satI) (rule satD [OF io_finishCycle])
  then show ?thesis
    unfolding completeCycle_def by (auto intro!: io_intros simp: clearWatchdog_eq)
qed

lemma io_handleTighteningResult:
  "sat (\<lambda>c c'. written c' = written c \<and> hasSocket c' = hasSocket c) (handleTighteningResult d)"
  unfolding handleTighteningResult_def by (auto intro!: io_intros io_completeCycle)

lemma written_emitStateChanged [simp]: "written (snd (emitStateChanged c)) = written c"
  by (simp add: snd_emitStateChanged split: option.splits)

lemma written_handleMID_result:
  assumes "hasSocket c"
  shows "written (snd (handleMID mid (P_Result d) c)) = written c @ [frame_text 62 [] False]"
proof -
  let ?c0 = "c\<lparr>connection := (connection c)\<lparr>lastMID := Some mid\<rparr>\<rparr>"
  let ?c1 = "snd (handleTighteningResult d ?c0)"
  have io: "written ?c1 = written c \<and> hasSocket ?c1 = hasSocket c"
    using satD [OF io_handleTighteningResult, of d ?c0] by simp
  with assms have "written (snd (handleCase (P_Result d) ?c0)) = written c @ [frame_text 62 [] False]"
    by (simp add: snd_sendMID touchTraffic_def)
  then show ?thesis
    by (simp add: handleMID_def andThen_cases)
qed

lemma parseMID_result:
  "mid = Num 61 \<or> mid = Num 65 \<Longrightarrow> \<exists>d. parseMID rv mid p = P_Result d"
  by (auto simp: parseMID_def)

text \<open>
  Claim C3. Handling a frame whose MID is 0061 or 0065 writes exactly one frame to the
  open socket, the MID 0062 acknowledgement, whatever the payload and whatever the
  listeners do, so also when a listener throws out of the aggregation.
\<close>

theorem result_always_acknowledged:
  assumes "mid = Num 61 \<or> mid = Num 65" and "hasSocket c"
  shows "written (snd (processFrame mid payload c)) = written c @ [''0020006200110101    '']"
proof -
  obtain d where d: "parseMID (revision (protocol c)) mid payload = P_Result d"
    using parseMID_result [OF assms(1)] by blast
  have frame: "frame_text 62 [] False = ''0020006200110101    ''"
    by code_simp
  have "written (snd (processFrame mid payload c)) = written (snd (handleMID mid (P_Result d) c))"
    by (simp add: processFrame_def tryCatch_def d split: prod.splits option.splits)
  with assms(2) frame show ?thesis
    by (simp add: written_handleMID_result)
qed

text \<open>On \<open>throwingClient\<close> the listener of \<^verbatim>\<open>spindleResult\<close> throws: the result is not stored,
  \<^verbatim>\<open>parseError\<close> is emitted, and the acknowledgement is written all the same.\<close>

theorem result_always_acknowledged_witness:
  "hasSocket throwingClient \<and>
   pendingSpindles (tightening (snd (processFrame (Num 61) (slice_from 20 resultFrame) throwingClient))) = [] \<and>
   last (emitted (snd (processFrame (Num 61) (slice_from 20 resultFrame) throwingClient))) =
     EvParseError (Num 61) ListenerThrew \<and>
   written (snd (processFrame (Num 61) (slice_from 20 resultFrame) throwingClient)) =
     written throwingClient @ [''0020006200110101    '']"
proof -
  have "hasSocket throwingClient \<and>
   pendingSpindles (tightening (snd (processFrame (Num 61) (slice_from 20 resultFrame) throwingClient))) = [] \<and>
   last (emitted (snd (processFrame (Num 61) (slice_from 20 resultFrame) throwingClient))) =
     EvParseError (Num 61) ListenerThrew"
    by code_simp
  with result_always_acknowledged [of "Num 61" throwingClient "slice_from 20 resultFrame"]
  show ?thesis by simp
qed

section \<open>The batch reset protocol\<close>

lemma reachable_afterBatchFrame5: "reachable defaultClient afterBatchFrame5"
proof -
  have "onData 2 batchFrame5 connectedClient \<noteq> None"
    by code_simp
  then obtain r where r: "onData 2 batchFrame5 connectedClient = Some (fst r, snd r)"
    by auto
  then have "afterBatchFrame5 = snd r"
    by (simp add: afterBatchFrame5_def)
  with onData_reachable [OF r reachable_connectedClient] show ?thesis
    by simp
qed

lemma reachable_resetRequested: "reachable defaultClient resetRequested"
proof -
  from reachable_exec [OF reachable_afterBatchFrame5, of Call_enableTool]
  have "reachable defaultClient (snd (enableTool afterBatchFrame5))"
    by simp
  from reachable_exec [OF this, of Call_resetBatch] show ?thesis
    by (simp add: resetRequested_def)
qed

text \<open>
  Claim C4 fails in the code. \<^verbatim>\<open>resetBatch()\<close> is called with the counter at 5 while
  \<^verbatim>\<open>enableTool()\<close> is outstanding. The controller rejects the tool command: the MID 0004
  against MID 0042 clears \<open>pendingReset\<close> and emits \<^verbatim>\<open>batchResetFailed\<close>, because the branch
  of MID 0004 does not test the rejected MID. The MID 0005 for MID 0020 that follows
  resolves the pending command 0020 and leaves the counter at 5, with no
  \<^verbatim>\<open>batchResetConfirmed\<close>. Without the MID 0004 the same MID 0005 sets the counter to 0 and
  emits \<^verbatim>\<open>batchResetConfirmed\<close>.
\<close>

theorem reset_lost_after_unrelated_error:
  "reachable defaultClient afterLateAccept \<and>
   batch_counter (batch resetRequested) = Num 5 \<and>
   pendingReset (batch resetRequested) \<and>
   map (\<lambda>e. pc_mid (snd e)) (pendingCommands resetRequested) = [42, 20] \<and>
   parseMID 1 (Num 4) ''00420001'' = P_CommandError (Num 42) (Num 1) [] \<and>
   \<not> pendingReset (batch afterOtherError) \<and>
   batch_counter (batch afterOtherError) = Num 5 \<and>
   EvBatchResetFailed (P_CommandError (Num 42) (Num 1) []) \<in> set (newEvents resetRequested afterOtherError) \<and>
   map (\<lambda>e. pc_mid (snd e)) (pendingCommands afterOtherError) = [20] \<and>
   parseMID 1 (Num 5) ''0020'' = P_CommandAccepted (Num 20) \<and>
   EvCommandSuccess (Num 20) 2 None \<in> set (newEvents afterOtherError afterLateAccept) \<and>
   EvBatchResetConfirmed \<notin> set (newEvents afterOtherError afterLateAccept) \<and>
   batch_counter (batch afterLateAccept) = Num 5 \<and>
   batch_counter (batch afterPromptAccept) = Num 0 \<and>
   EvBatchResetConfirmed \<in> set (newEvents resetRequested afterPromptAccept)"
proof -
  have "reachable defaultClient afterLateAccept"
    unfolding afterLateAccept_def afterOtherError_def
    by (intro reachable_processFrame reachable_resetRequested)
  moreover have "batch_counter (batch resetRequested) = Num 5 \<and>
      pendingReset (batch resetRequested) \<and>
      map (\<lambda>e. pc_mid (snd e)) (pendingCommands resetRequested) = [42, 20] \<and>
      parseMID 1 (Num 4) ''00420001'' = P_CommandError (Num 42) (Num 1) [] \<and>
      parseMID 1 (Num 5) ''0020'' = P_CommandAccepted (Num 20)"
    by code_simp
  moreover have "\<not> pendingReset (batch afterOtherError) \<and>
      batch_counter (batch afterOtherError) = Num 5 \<and>
      EvBatchResetFailed (P_CommandError (Num 42) (Num 1) []) \<in> set (newEvents resetRequested afterOtherError) \<and>
      map (\<lambda>e. pc_mid (snd e)) (pendingCommands afterOtherError) = [20]"
    by code_simp
  moreover have "EvCommandSuccess (Num 20) 2 None \<in> set (newEvents afterOtherError afterLateAccept) \<and>
      EvBatchResetConfirmed \<notin> set (newEvents afterOtherError afterLateAccept) \<and>
      batch_counter (batch afterLateAccept) = Num 5"
    by code_simp
  moreover have "batch_counter (batch afterPromptAccept) = Num 0 \<and>
      EvBatchResetConfirmed \<in> set (newEvents resetRequested afterPromptAccept)"
    by code_simp
  ultimately show ?thesis
    by simp
qed

section \<open>The frame round trip\<close>


lemma less_10_cases: "d < 10 \<Longrightarrow> d \<in> {0, 1, 2, 3, 4, 5, 6, 7, 8, 9::nat}"
  by auto

lemma is_digit_digit_char: "d < 10 \<Longrightarrow> is_digit (digit_char d)"
  by (drule less_10_cases) (auto simp: is_digit_def digit_char_def)

lemma digit_val_digit_char: "d < 10 \<Longrightarrow> digit_val (digit_char d) = d"
  by (drule less_10_cases) (auto simp: digit_val_def digit_char_def)

lemma digits_all_digit: "list_all is_digit (digits n)"
proof (induction n rule: digits.induct)
  case (1 n)
  then show ?case
    by (subst digits.simps) (simp add: is_digit_digit_char)
qed

lemma digits_value_snoc: "digits_value (ds @ [ch]) = 10 * digits_value ds + digit_val ch"
  by (simp add: digits_value_def)

lemma digits_value_digits: "digits_value (digits n) = n"
proof (induction n rule: digits.induct)
  case (1 n)
  then show ?case
    by (subst digits.simps) (simp add: digits_value_snoc digit_val_digit_char digits_value_def)
qed

lemma digits_nonempty: "digits n \<noteq> []"
  by (subst digits.simps) simp

lemma length_digits: "0 < k \<Longrightarrow> n < 10 ^ k \<Longrightarrow> length (digits n) \<le> k"
proof (induction n arbitrary: k rule: digits.induct)
  case (1 n)
  show ?case
  proof (cases "n < 10")
    case True
    with 1(2) show ?thesis by (subst digits.simps) simp
  next
    case False
    with 1(3) have "1 < k" by (cases k; cases "k - 1") auto
    then obtain j where k: "k = Suc j" "0 < j" by (cases k) auto
    with 1(3) have "n div 10 < 10 ^ j"
      by (simp add: less_mult_imp_div_less mult.commute)
    with 1(1) [OF False k(2)] have "length (digits (n div 10)) \<le> j" by simp
    with False k show ?thesis by (subst digits.simps) simp
  qed
qed

lemma digits_value_zeros: "digits_value (replicate k CHR ''0'' @ ds) = digits_value ds"
  by (induction k) (simp_all add: digits_value_def digit_val_def)

lemma is_digit_not_space: "is_digit ch \<Longrightarrow> \<not> is_space ch \<and> ch \<noteq> CHR ''-'' \<and> ch \<noteq> CHR ''+''"
  by (auto simp: is_digit_def is_space_def)

lemma parseInt_digits:
  assumes "ds \<noteq> []" and "list_all is_digit ds" and "int (digits_value ds) < 2 ^ 53"
  shows "parseInt ds = Num (int (digits_value ds))"
proof -
  from assms obtain ch rest where ds: "ds = ch # rest" by (cases ds) auto
  with assms(2) have ch: "is_digit ch" and "list_all is_digit rest" by simp_all
  then have tw: "takeWhile is_digit rest = rest"
    by (simp add: list_all_iff takeWhile_eq_all_conv)
  from is_digit_not_space [OF ch] ch
  have "parseInt ds = to_double (int (digits_value ds)) 1"
    by (simp add: parseInt_def ds tw)
  with assms(3) show ?thesis
    by (simp add: to_double_int)
qed

text \<open>A number below 10000, written with four digits.\<close>

lemma padStart_digits:
  assumes "n \<le> 9999"
  shows "length (padStart 4 CHR ''0'' (digits n)) = 4"
    and "list_all is_digit (padStart 4 CHR ''0'' (digits n))"
    and "parseInt (padStart 4 CHR ''0'' (digits n)) = Num (int n)"
proof -
  from assms have len: "length (digits n) \<le> 4"
    by (intro length_digits) simp_all
  then show l4: "length (padStart 4 CHR ''0'' (digits n)) = 4"
    by (simp add: padStart_def)
  have "is_digit CHR ''0''" by (simp add: is_digit_def)
  with digits_all_digit [of n] show all: "list_all is_digit (padStart 4 CHR ''0'' (digits n))"
    by (auto simp: padStart_def list_all_iff)
  from l4 have "padStart 4 CHR ''0'' (digits n) \<noteq> []" by auto
  moreover from assms have "int (digits_value (padStart 4 CHR ''0'' (digits n))) < 2 ^ 53"
    by (simp add: padStart_def digits_value_zeros digits_value_digits)
  ultimately show "parseInt (padStart 4 CHR ''0'' (digits n)) = Num (int n)"
    using parseInt_digits [OF _ all] by (simp add: padStart_def digits_value_zeros digits_value_digits)
qed


lemma reflp_untouched [simp]: "reflp untouched"
  by (simp add: reflp_def untouched_def)

lemma transp_untouched [simp]: "transp untouched"
  by (simp add: transp_def untouched_def)

lemma untouchedI:
  "buffer c' = buffer c \<Longrightarrow> hasSocket c' = hasSocket c \<Longrightarrow> validateFrames c' = validateFrames c \<Longrightarrow>
   listenerThrows c' = listenerThrows c \<Longrightarrow> timeoutJSON c' = timeoutJSON c \<Longrightarrow> now c' = now c \<Longrightarrow>
   untouched c c'"
  by (simp add: untouched_def)

lemma untouched_sendMID: "untouched c (snd (sendMID mid payload expectAck c))"
  by (simp add: snd_sendMID untouched_def touchTraffic_def)

lemmas untouched_intros = sat_intros untouchedI untouched_sendMID

lemma untouched_subscribe:
  "sat untouched subscribeTighteningResults" "sat untouched subscribeAlarms"
  by (auto intro!: untouched_intros simp: subscribeTighteningResults_def subscribeAlarms_def)

lemma untouched_resolvePendingCommand: "sat untouched (resolvePendingCommand mid success data)"
proof (rule satI)
  fix c
  show "untouched c (snd (resolvePendingCommand mid success data c))"
    by (cases "find (\<lambda>e. Num (pc_mid (snd e)) = mid) (pendingCommands c)")
      (simp_all add: resolvePendingCommand_def seq_simps untouched_def)
qed

lemma untouched_startTighteningCycle: "sat untouched startTighteningCycle"
  by (auto intro!: untouched_intros simp: startTighteningCycle_def startWatchdog_def clearWatchdog_eq)

lemma untouched_finishCycle: "sat untouched (finishCycle rs b)"
  unfolding finishCycle_def by (auto intro!: untouched_intros)

lemma untouched_completeCycle: "sat untouched completeCycle"
proof -
  have "sat untouched (\<lambda>c. let results = map snd (pendingSpindles (tightening c));
               overallOk = list_all ok results
           in finishCycle results overallOk c)"
    unfolding Let_def by (rule satI) (rule satD [OF untouched_finishCycle])
  then show ?thesis
    unfolding completeCycle_def by (auto intro!: untouched_intros simp: clearWatchdog_eq)
qed

lemma untouched_handleTighteningResult: "sat untouched (handleTighteningResult d)"
  unfolding handleTighteningResult_def by (auto intro!: untouched_intros untouched_completeCycle)

lemma untouched_handleCase: "sat untouched (handleCase d)"
  by (cases d)
    (auto intro!: untouched_intros untouched_subscribe untouched_resolvePendingCommand
      untouched_startTighteningCycle untouched_handleTighteningResult)

lemma untouched_emitStateChanged: "sat untouched emitStateChanged"
  by (rule satI) (auto simp: snd_emitStateChanged untouched_def split: option.splits)

lemma untouched_handleMID: "sat untouched (handleMID mid d)"
  unfolding handleMID_def
  by (auto intro!: untouched_intros untouched_handleCase untouched_emitStateChanged)

lemma untouched_processFrame: "sat untouched (processFrame mid payload)"
  unfolding processFrame_def
  by (intro sat_tryCatch satI satD [OF untouched_handleMID] transp_untouched)
    (auto intro!: untouched_intros)

lemma toString_nonneg: "0 \<le> i \<Longrightarrow> toString i = digits (nat i)"
  by (simp add: toString_def)

lemma frame_text_eq:
  assumes "0 \<le> mid" and "mid \<le> 9999"
  shows "frame_text mid payload expectAck =
     padStart 4 CHR ''0'' (digits (length payload + 20)) @
     padStart 4 CHR ''0'' (digits (nat mid)) @ ''001'' @ (if expectAck then ''0'' else ''1'') @
     ''0101    '' @ payload"
proof -
  from assms have "nat mid \<le> 9999" by simp
  from padStart_digits(1) [OF this] assms(1) show ?thesis
    by (simp add: frame_text_def Let_def toString_nonneg add.commute nat_add_distrib)
qed

lemma onData_loop_frame:
  assumes "\<not> length (buffer c) < 4" and "\<not> invalidLength c" and "\<not> lengthOutOfRange c"
      and "\<not> js_lt (Num (int (length (buffer c)))) (frameLength c)"
      and "slice_num (Num 4) (frameLength c) (buffer c) = frame"
      and "c\<lparr>buffer := slice_from_num (frameLength c) (buffer c)\<rparr> = c1"
  shows "onData_loop (Suc k) c =
     (case processFrame (parseInt (slice 0 4 frame)) (slice_from 16 frame) c1 of
        (Some e, c') \<Rightarrow> Some (Some e, c')
      | (None, c') \<Rightarrow> onData_loop k c')"
  using assms by (simp add: Let_def)

text \<open>
  Claim C8. For a MID of at most four digits and a payload without NUL bytes that keeps
  the frame within 9999 bytes, the bytes that \<^verbatim>\<open>sendMID\<close> writes, fed to \<^verbatim>\<open>_onData\<close> of a
  client with an empty buffer, are decoded as exactly one frame: the call is the handling
  of that MID with that payload, without any \<^verbatim>\<open>frameError\<close>, and the buffer is empty
  again. The bytes carry the length, the MID, revision \<^verbatim>\<open>001\<close>, the NoAck byte \<^verbatim>\<open>0\<close> when
  an acknowledgement is expected and \<^verbatim>\<open>1\<close> otherwise, station \<^verbatim>\<open>01\<close>, spindle \<^verbatim>\<open>01\<close>, four
  spaces and the payload.
\<close>

theorem frame_round_trip:
  assumes mid: "0 \<le> mid" "mid \<le> 9999"
      and nul: "list_all (\<lambda>ch. ch \<noteq> CHR 0x00) payload"
      and len: "length payload + 20 \<le> 9999"
      and buf: "buffer c = []"
  shows "onData (Suc (Suc n)) (frame_text mid payload expectAck) c =
           Some (processFrame (Num mid) payload ((touchTraffic c)\<lparr>buffer := []\<rparr>)) \<and>
         parseInt (slice 0 4 (frame_text mid payload expectAck)) = Num (int (length payload + 20)) \<and>
         length (frame_text mid payload expectAck) = length payload + 20 \<and>
         parseInt (slice 4 8 (frame_text mid payload expectAck)) = Num mid \<and>
         slice 8 11 (frame_text mid payload expectAck) = ''001'' \<and>
         slice 11 12 (frame_text mid payload expectAck) = (if expectAck then ''0'' else ''1'') \<and>
         slice 12 14 (frame_text mid payload expectAck) = ''01'' \<and>
         slice 14 16 (frame_text mid payload expectAck) = ''01'' \<and>
         slice 16 20 (frame_text mid payload expectAck) = ''    '' \<and>
         slice_from 20 (frame_text mid payload expectAck) = payload"
proof -
  let ?L = "padStart 4 CHR ''0'' (digits (length payload + 20))"
  let ?M = "padStart 4 CHR ''0'' (digits (nat mid))"
  let ?H = "CHR ''0'' # CHR ''0'' # CHR ''1'' # (if expectAck then CHR ''0'' else CHR ''1'') # ''0101    ''"
  let ?F = "frame_text mid payload expectAck"
  from mid have m: "nat mid \<le> 9999" by simp
  note L = padStart_digits [OF len]
  note M = padStart_digits [OF m]
  have F: "?F = ?L @ ?M @ ?H @ payload"
    using frame_text_eq [OF mid, of payload expectAck] by (cases expectAck) simp_all
  have lenF: "length ?F = length payload + 20"
    by (simp add: F L(1) M(1))
  have s04: "slice 0 4 ?F = ?L"
    by (simp add: F slice_def L(1))
  have d4: "drop 4 ?F = ?M @ ?H @ payload"
    by (simp add: F L(1))
  have s48: "slice 4 8 ?F = ?M"
    by (simp add: slice_def d4 M(1))
  have lenH: "length ?H = 12" by simp
  have d8: "drop 8 ?F = ?H @ payload"
    using drop_drop [of 4 4 ?F] by (simp add: d4 M(1))
  have dk: "drop (k + 8) ?F = drop k (?H @ payload)" for k
    by (simp only: drop_drop [symmetric] d8)
  have d20: "drop 20 ?F = payload"
    using dk [of 12] by simp
  have hdr: "slice 8 11 ?F = ''001''" "slice 11 12 ?F = (if expectAck then ''0'' else ''1'')"
    "slice 12 14 ?F = ''01''" "slice 14 16 ?F = ''01''" "slice 16 20 ?F = ''    ''"
    using dk [of 0] dk [of 3] dk [of 4] dk [of 6] dk [of 8]
    by (simp_all add: slice_def)
  have digit_nul: "filter (\<lambda>ch. ch \<noteq> CHR 0x00) ds = ds" if "list_all is_digit ds" for ds
    using that by (induction ds) (auto simp: is_digit_def)
  have clean: "filter (\<lambda>ch. ch \<noteq> CHR 0x00) ?F = ?F"
    using nul by (simp add: F digit_nul [OF L(2)] digit_nul [OF M(2)] list_all_iff filter_id_conv)
  define c0 where "c0 = (touchTraffic c)\<lparr>buffer := ?F\<rparr>"
  define c1 where "c1 = (touchTraffic c)\<lparr>buffer := []\<rparr>"
  have b0: "buffer c0 = ?F" by (simp add: c0_def)
  have inv: "\<not> invalidLength c0"
    by (simp add: invalidLength_def b0 s04 L Let_def)
  have fl: "frameLength c0 = Num (int (length payload + 20))"
    by (simp add: frameLength_def b0 s04 L)
  have rng: "\<not> lengthOutOfRange c0"
    using len by (simp add: lengthOutOfRange_def fl)
  have frame: "slice_num (Num 4) (frameLength c0) (buffer c0) = drop 4 ?F"
    by (simp add: slice_num_def js_index_def fl b0 lenF Let_def)
  have "slice_from_num (frameLength c0) (buffer c0) = []"
    by (simp add: slice_from_num_def js_index_def fl b0 lenF)
  then have rest: "c0\<lparr>buffer := slice_from_num (frameLength c0) (buffer c0)\<rparr> = c1"
    by (simp add: c0_def c1_def)
  have midp: "parseInt (slice 0 4 (drop 4 ?F)) = Num mid"
    using mid(1) by (simp add: slice_def d4 M)
  have payl: "slice_from 16 (drop 4 ?F) = payload"
    by (simp add: slice_from_def d20)
  let ?p = "processFrame (Num mid) payload c1"
  have "buffer (snd ?p) = buffer c1"
    using satD [OF untouched_processFrame, of c1 "Num mid" payload] by (simp add: untouched_def)
  then have e: "buffer (snd ?p) = []" by (simp add: c1_def)
  have long: "\<not> length (buffer c0) < 4" "\<not> js_lt (Num (int (length (buffer c0)))) (frameLength c0)"
    by (simp_all add: b0 lenF fl)
  have step: "onData_loop (Suc (Suc n)) c0 =
     (case ?p of (Some e, c') \<Rightarrow> Some (Some e, c') | (None, c') \<Rightarrow> onData_loop (Suc n) c')"
    using onData_loop_frame [OF long(1) inv rng long(2) frame rest, of "Suc n"]
    by (simp only: midp payl)
  have loop: "onData_loop (Suc (Suc n)) c0 = Some ?p"
  proof (cases "fst ?p")
    case None
    then have p: "?p = (None, snd ?p)" by (simp add: prod_eq_iff)
    have "onData_loop (Suc n) (snd ?p) = Some (None, snd ?p)"
      by (simp add: e)
    with p show ?thesis
      unfolding step by (metis (no_types, lifting) case_prod_conv option.simps(4))
  next
    case (Some err)
    then have "?p = (Some err, snd ?p)" by (simp add: prod_eq_iff)
    then show ?thesis
      unfolding step by (metis (no_types, lifting) case_prod_conv option.simps(5))
  qed
  have "onData (Suc (Suc n)) ?F c = Some ?p"
    using loop by (simp add: onData_def buf clean c0_def)
  moreover have "parseInt (slice 0 4 ?F) = Num (int (length payload + 20))"
    by (simp add: s04 L)
  moreover have "parseInt (slice 4 8 ?F) = Num mid"
    using mid(1) by (simp add: s48 M)
  moreover have "slice_from 20 ?F = payload"
    by (simp add: slice_from_def d20)
  ultimately show ?thesis
    using lenF hdr by (simp add: c1_def)
qed


theorem frame_round_trip_witness:
  "buffer connectedClient = [] \<and>
   frame_text 42 ''ABC'' True = ''0023004200100101    ABC'' \<and>
   onData 2 ''0023004200100101    ABC'' connectedClient =
     Some (processFrame (Num 42) ''ABC'' ((touchTraffic connectedClient)\<lparr>buffer := []\<rparr>)) \<and>
   slice 11 12 ''0023004200100101    ABC'' = ''0'' \<and>
   slice_from 20 ''0023004200100101    ABC'' = ''ABC''"
proof -
  have pre: "buffer connectedClient = [] \<and> frame_text 42 ''ABC'' True = ''0023004200100101    ABC''"
    by code_simp
  then have b: "buffer connectedClient = []" by simp
  have two: "Suc (Suc 0) = 2" by simp
  from frame_round_trip [of 42 "''ABC''" connectedClient 0 True, OF _ _ _ _ b] pre
  show ?thesis by (simp add: two)
qed

section \<open>The state snapshot of \<^verbatim>\<open>getState\<close>\<close>

lemma reachable_runningClient: "reachable defaultClient runningClient"
  unfolding runningClient_def by (intro reachable_processFrame reachable_connectedClient)

text \<open>
  Claim C10 fails in the code. Before the cycle \<^verbatim>\<open>getState()\<close> returns a snapshot. The MID
  0041 that starts a cycle stores the armed timer handle in \<open>tightening.watchdog\<close>, and
  \<^verbatim>\<open>JSON.stringify\<close> throws on it: \<^verbatim>\<open>getState()\<close> throws, the \<^verbatim>\<open>stateChanged\<close> of the frame is
  not emitted, and \<^verbatim>\<open>_onData\<close> reports a \<^verbatim>\<open>parseError\<close> for a frame that was parsed and
  projected. It is so for every frame until the cycle ends, here a MID 0011 whose
  parameter set 5 is stored.
\<close>

theorem getState_throws_during_cycle:
  "reachable defaultClient duringCycleClient \<and>
   getState connectedClient \<noteq> None \<and>
   watchdog (tightening runningClient) = Some True \<and>
   getState runningClient = None \<and>
   newEvents connectedClient runningClient =
     [EvTighteningCycleStarted 0, EvParseError (Num 41) TypeError] \<and>
   paramSetId (job duringCycleClient) = Some (Num 5) \<and>
   getState duringCycleClient = None \<and>
   newEvents runningClient duringCycleClient = [EvParseError (Num 11) TypeError]"
proof -
  have "reachable defaultClient duringCycleClient"
    unfolding duringCycleClient_def by (intro reachable_processFrame reachable_runningClient)
  moreover have "getState connectedClient \<noteq> None \<and>
      watchdog (tightening runningClient) = Some True \<and>
      getState runningClient = None \<and>
      newEvents connectedClient runningClient =
        [EvTighteningCycleStarted 0, EvParseError (Num 41) TypeError]"
    by code_simp
  moreover have "paramSetId (job duringCycleClient) = Some (Num 5) \<and>
      getState duringCycleClient = None \<and>
      newEvents runningClient duringCycleClient = [EvParseError (Num 11) TypeError]"
    by code_simp
  ultimately show ?thesis
    by simp
qed

lemma reachable_afterOddFrame: "reachable defaultClient afterOddFrame"
proof -
  have "onData 2 oddFrame connectedClient \<noteq> None"
    by code_simp
  then obtain r where r: "onData 2 oddFrame connectedClient = Some (fst r, snd r)"
    by auto
  then have "afterOddFrame = snd r"
    by (simp add: afterOddFrame_def)
  with onData_reachable [OF r reachable_connectedClient] show ?thesis
    by simp
qed

text \<open>Where \<^verbatim>\<open>getState()\<close> returns, a number that is \<open>NaN\<close> is \<open>null\<close> in the snapshot: after
  the frame \<open>oddFrame\<close> the internal \<open>connection.lastMID\<close> is \<open>NaN\<close>.\<close>

lemma snapshot_nan_is_null:
  "reachable defaultClient afterOddFrame \<and>
   lastMID (connection afterOddFrame) = Some NaN \<and>
   field_at [''connection'', ''lastMID''] (state_value afterOddFrame) = Some (VNum NaN) \<and>
   map_option (field_at [''connection'', ''lastMID'']) (getState afterOddFrame) = Some (Some VNull) \<and>
   map_option (field_at [''pendingCommands'']) (getState (snd (enableTool connectedClient))) =
     Some (Some (VObj []))"
proof -
  have "lastMID (connection afterOddFrame) = Some NaN \<and>
      field_at [''connection'', ''lastMID''] (state_value afterOddFrame) = Some (VNum NaN) \<and>
      map_option (field_at [''connection'', ''lastMID'']) (getState afterOddFrame) = Some (Some VNull) \<and>
      map_option (field_at [''pendingCommands'']) (getState (snd (enableTool connectedClient))) =
        Some (Some (VObj []))"
    by code_simp
  with reachable_afterOddFrame show ?thesis by simp
qed

section \<open>Tightening cycles and their end events\<close>

text \<open>
  Claim C6 fails in the code. One cycle is started. No result arrives and the watchdog
  fires: \<^verbatim>\<open>tighteningIncomplete\<close> is emitted and the cycle state is cleared. The result of the
  spindle arrives 500 ms later: \<^verbatim>\<open>_handleTighteningResult\<close> does not test \<open>inProgress\<close>, collects
  it and emits \<^verbatim>\<open>tighteningCycleCompleted\<close>, with the duration measured from the start of
  that cycle. Both end events are emitted for the one \<^verbatim>\<open>tighteningCycleStarted\<close>.
\<close>

theorem completion_after_incomplete:
  "reachable defaultClient lateResultClient \<and>
   cycleEvents connectedClient = [] \<and>
   cycleEvents runningClient = [EvTighteningCycleStarted 0] \<and>
   inProgress (tightening runningClient) \<and>
   watchdog (tightening runningClient) = Some True \<and>
   cycleEvents expiredClient = [EvTighteningCycleStarted 0, EvTighteningIncomplete (Num 1) 0 []] \<and>
   \<not> inProgress (tightening expiredClient) \<and>
   parseMID 1 (Num 61) resultPayload = P_Result theResult \<and>
   cycleEvents lateResultClient =
     [EvTighteningCycleStarted 0, EvTighteningIncomplete (Num 1) 0 [],
      EvTighteningCycleCompleted [theResult] True 8500]"
proof -
  have "reachable defaultClient lateResultClient"
    unfolding lateResultClient_def expiredClient_def
    by (intro reachable_processFrame reachable_exec reachable_runningClient)
  moreover have "cycleEvents connectedClient = [] \<and>
      cycleEvents runningClient = [EvTighteningCycleStarted 0] \<and>
      inProgress (tightening runningClient) \<and>
      watchdog (tightening runningClient) = Some True \<and>
      parseMID 1 (Num 61) resultPayload = P_Result theResult"
    by code_simp
  moreover have "cycleEvents expiredClient = [EvTighteningCycleStarted 0, EvTighteningIncomplete (Num 1) 0 []] \<and>
      \<not> inProgress (tightening expiredClient)"
    by code_simp
  moreover have "cycleEvents lateResultClient =
     [EvTighteningCycleStarted 0, EvTighteningIncomplete (Num 1) 0 [],
      EvTighteningCycleCompleted [theResult] True 8500]"
    by code_simp
  ultimately show ?thesis
    by simp
qed

text \<open>
  A cycle can also be left without any end event. \<^verbatim>\<open>_onClose\<close> cancels the watchdog and
  leaves \<open>inProgress\<close> set. After the reconnection a MID 0041 that reports the tool running
  starts nothing, since a cycle is in progress, and no watchdog is armed: when its time has
  passed nothing happens.
\<close>

lemma cycle_left_open_by_close:
  "reachable defaultClient noWatchdogClient \<and>
   inProgress (tightening closedClient) \<and>
   watchdog (tightening closedClient) = None \<and>
   connected (connection runningAgainClient) \<and>
   cycleEvents runningAgainClient = [EvTighteningCycleStarted 0] \<and>
   watchdog (tightening runningAgainClient) = None \<and>
   inProgress (tightening noWatchdogClient) \<and>
   cycleEvents noWatchdogClient = [EvTighteningCycleStarted 0]"
proof -
  have "reachable defaultClient noWatchdogClient"
    unfolding noWatchdogClient_def runningAgainClient_def reconnectedClient_def closedClient_def
    by (intro reachable_processFrame reachable_exec reachable_runningClient)
  moreover have "inProgress (tightening closedClient) \<and>
      watchdog (tightening closedClient) = None \<and>
      connected (connection runningAgainClient) \<and>
      cycleEvents runningAgainClient = [EvTighteningCycleStarted 0] \<and>
      watchdog (tightening runningAgainClient) = None"
    by code_simp
  moreover have "inProgress (tightening noWatchdogClient) \<and>
      cycleEvents noWatchdogClient = [EvTighteningCycleStarted 0]"
    by code_simp
  ultimately show ?thesis
    by simp
qed

end
